theory Spec2Isabelle
  imports Main "HOL-Library.Word" "HOL-Library.Monad_Syntax"
begin

section \<open>The IAM user-policy-attachment controller\<close>

text \<open>
  The embedding follows \<^verbatim>\<open>pkg/controller/identity/iamuserpolicyattachment/controller.go\<close>.
  A Go \<^verbatim>\<open>error\<close> that may be \<^verbatim>\<open>nil\<close> is an \<open>option\<close>; the errors raised by the
  collaborators (the provider client and the cluster store) are values of a type
  parameter \<open>'e\<close>.
\<close>

subsection \<open>Error values\<close>

text \<open>
  The errors the controller builds itself: \<^verbatim>\<open>errors.New(msg)\<close> and a cause wrapped
  with a message, \<^verbatim>\<open>errors.Wrap(cause, msg)\<close>.
\<close>

datatype 'e go_error = errors_New string | errors_Wrap 'e string

definition errUnexpectedObject :: string where
  "errUnexpectedObject = ''The managed resource is not an UserPolicyAttachment resource''"

definition errGet :: string where
  "errGet = ''failed to get UserPolicyAttachments for user''"

definition errAttach :: string where
  "errAttach = ''failed to attach the policy to user''"

definition errDetach :: string where
  "errDetach = ''failed to detach the policy to user''"

definition errKubeUpdateFailed :: string where
  "errKubeUpdateFailed = ''cannot late initialize UserPolicyAttachment''"

text \<open>
  Modelled from the spec: \<^verbatim>\<open>awsclient.Wrap\<close> of \<^verbatim>\<open>pkg/clients\<close>, which is not among the
  sources. The spec has every provider error wrapped with a static tag, the cause
  preserved, and has the not-found cases end with no error, so a \<^verbatim>\<open>nil\<close> error stays
  \<^verbatim>\<open>nil\<close>.
\<close>

fun awsclient_Wrap :: "'e option \<Rightarrow> string \<Rightarrow> 'e go_error option" where
  "awsclient_Wrap None msg = None"
| "awsclient_Wrap (Some er) msg = Some (errors_Wrap er msg)"

text \<open>
  \<^verbatim>\<open>resource.Ignore(is, err)\<close> of crossplane-runtime: \<^verbatim>\<open>nil\<close> when \<^verbatim>\<open>is(err)\<close>, else
  \<^verbatim>\<open>err\<close>. The predicate \<^verbatim>\<open>iam.IsErrorNotFound\<close> is false on \<^verbatim>\<open>nil\<close>.
\<close>

fun resource_Ignore :: "('e \<Rightarrow> bool) \<Rightarrow> 'e option \<Rightarrow> 'e option" where
  "resource_Ignore is None = None"
| "resource_Ignore is (Some er) = (if is er then None else Some er)"

subsection \<open>Conditions (crossplane-runtime, apis/common/v1)\<close>

record Condition =
  Type :: string
  CStatus :: string
  LastTransitionTime :: nat
  Reason :: string
  Message :: string

definition TypeReady :: string where "TypeReady = ''Ready''"
definition TypeSynced :: string where "TypeSynced = ''Synced''"
definition ConditionTrue :: string where "ConditionTrue = ''True''"
definition ConditionFalse :: string where "ConditionFalse = ''False''"
definition ConditionUnknown :: string where "ConditionUnknown = ''Unknown''"
definition ReasonAvailable :: string where "ReasonAvailable = ''Available''"
definition ReasonCreating :: string where "ReasonCreating = ''Creating''"
definition ReasonDeleting :: string where "ReasonDeleting = ''Deleting''"

text \<open>The constructors read the clock (\<^verbatim>\<open>metav1.Now()\<close>); the time is an argument here.\<close>

definition Available :: "nat \<Rightarrow> Condition" where
  "Available now = \<lparr>Type = TypeReady, CStatus = ConditionTrue, LastTransitionTime = now,
     Reason = ReasonAvailable, Message = []\<rparr>"

definition Creating :: "nat \<Rightarrow> Condition" where
  "Creating now = \<lparr>Type = TypeReady, CStatus = ConditionFalse, LastTransitionTime = now,
     Reason = ReasonCreating, Message = []\<rparr>"

definition Deleting :: "nat \<Rightarrow> Condition" where
  "Deleting now = \<lparr>Type = TypeReady, CStatus = ConditionFalse, LastTransitionTime = now,
     Reason = ReasonDeleting, Message = []\<rparr>"

text \<open>\<^verbatim>\<open>Condition.Equal\<close> ignores the transition time.\<close>

definition Condition_Equal :: "Condition \<Rightarrow> Condition \<Rightarrow> bool" where
  "Condition_Equal c other \<longleftrightarrow>
     Type c = Type other \<and> CStatus c = CStatus other \<and>
     Reason c = Reason other \<and> Message c = Message other"

text \<open>
  One round of \<^verbatim>\<open>ConditionedStatus.SetConditions\<close>: every existing condition of the new
  condition's type that is not \<^verbatim>\<open>Equal\<close> to it is overwritten in place; the new condition
  is appended when no condition of its type exists.
\<close>

fun overwrite :: "Condition \<Rightarrow> Condition list \<Rightarrow> Condition list" where
  "overwrite new [] = []"
| "overwrite new (existing # cs) =
     (if Type existing \<noteq> Type new then existing
      else if Condition_Equal existing new then existing
      else new) # overwrite new cs"

fun has_type :: "string \<Rightarrow> Condition list \<Rightarrow> bool" where
  "has_type ct [] = False"
| "has_type ct (existing # cs) = (if Type existing = ct then True else has_type ct cs)"

definition SetCondition :: "Condition \<Rightarrow> Condition list \<Rightarrow> Condition list" where
  "SetCondition new cs =
     (if has_type (Type new) cs then overwrite new cs else overwrite new cs @ [new])"

fun SetConditions :: "Condition list \<Rightarrow> Condition list \<Rightarrow> Condition list" where
  "SetConditions [] cs = cs"
| "SetConditions (new # rest) cs = SetConditions rest (SetCondition new cs)"

text \<open>\<^verbatim>\<open>GetCondition\<close>: the first condition of the type, or an \<^verbatim>\<open>Unknown\<close> one.\<close>

fun GetCondition :: "Condition list \<Rightarrow> string \<Rightarrow> Condition" where
  "GetCondition [] ct = \<lparr>Type = ct, CStatus = ConditionUnknown, LastTransitionTime = 0,
     Reason = [], Message = []\<rparr>"
| "GetCondition (c # cs) ct = (if Type c = ct then c else GetCondition cs ct)"

subsection \<open>The managed resource (apis/identity/v1alpha1)\<close>

text \<open>
  The declaration of the parameter struct is not among the sources. The record has the
  two fields the controller reads; whatever else the struct holds is the record's
  extension \<open>'m\<close>.
\<close>

record IAMUserPolicyAttachmentParameters =
  PolicyARN :: string
  UserName :: string

record 'm IAMUserPolicyAttachmentSpec =
  ForProvider :: "'m IAMUserPolicyAttachmentParameters_scheme"

record IAMUserPolicyAttachmentObservation =
  AttachedPolicyARN :: string

record IAMUserPolicyAttachmentStatus =
  Conditions :: "Condition list"
  AtProvider :: IAMUserPolicyAttachmentObservation

record 'm IAMUserPolicyAttachment =
  Spec :: "'m IAMUserPolicyAttachmentSpec"
  Status :: IAMUserPolicyAttachmentStatus

text \<open>
  \<^verbatim>\<open>resource.Managed\<close> is an interface: the value is the attachment (a non-nil pointer to
  it) or something of another kind, \<^verbatim>\<open>nil\<close> included.
\<close>

datatype ('m, 'o) Managed =
  Attachment "'m IAMUserPolicyAttachment"
| OtherKind 'o

definition cr_SetConditions ::
  "Condition list \<Rightarrow> 'm IAMUserPolicyAttachment \<Rightarrow> 'm IAMUserPolicyAttachment" where
  "cr_SetConditions c cr =
     cr\<lparr>Status := (Status cr)\<lparr>Conditions := SetConditions c (Conditions (Status cr))\<rparr>\<rparr>"

subsection \<open>The provider client and the cluster store\<close>

record AttachedPolicy =
  PolicyArn :: "string option"
  PolicyName :: "string option"

definition aws_String :: "string \<Rightarrow> string option" where
  "aws_String s = Some s"

fun aws_StringValue :: "string option \<Rightarrow> string" where
  "aws_StringValue None = []"
| "aws_StringValue (Some s) = s"

text \<open>
  The requests the controller sends, with the fields it fills in: the user name for the
  list request, the policy ARN and the user name for attach and detach, the object for
  the store's update.
\<close>

datatype 'm call =
  ListAttachedUserPoliciesRequest "string option"
| AttachUserPolicyRequest "string option" "string option"
| DetachUserPolicyRequest "string option" "string option"
| kube_Update_call "'m IAMUserPolicyAttachment"

text \<open>
  The collaborators of \<^verbatim>\<open>external\<close>: what the provider answers to each request, what
  the store's \<^verbatim>\<open>Update\<close> returns and leaves in the object, and the two functions of
  package \<^verbatim>\<open>pkg/clients/iam\<close> that are not among the sources, taken as they come.
\<close>

record ('m, 'e) external =
  client_ListAttachedUserPolicies :: "string option \<Rightarrow> 'e + AttachedPolicy list"
  client_AttachUserPolicy :: "string option \<Rightarrow> string option \<Rightarrow> 'e option"
  client_DetachUserPolicy :: "string option \<Rightarrow> string option \<Rightarrow> 'e option"
  kube_Update :: "'m IAMUserPolicyAttachment \<Rightarrow> 'e option \<times> 'm IAMUserPolicyAttachment"
  IsErrorNotFound :: "'e \<Rightarrow> bool"
  LateInitializeUserPolicy ::
    "'m IAMUserPolicyAttachmentParameters_scheme \<Rightarrow> AttachedPolicy \<Rightarrow>
     'm IAMUserPolicyAttachmentParameters_scheme"

subsection \<open>Results\<close>

record ExternalObservation =
  ResourceExists :: bool
  ResourceUpToDate :: bool
  ObservationConnectionDetails :: "(string \<times> string) list"

record ExternalCreation =
  CreationConnectionDetails :: "(string \<times> string) list"

record ExternalUpdate =
  UpdateConnectionDetails :: "(string \<times> string) list"

definition ExternalObservation_zero :: ExternalObservation where
  "ExternalObservation_zero =
     \<lparr>ResourceExists = False, ResourceUpToDate = False, ObservationConnectionDetails = []\<rparr>"

definition ExternalCreation_zero :: ExternalCreation where
  "ExternalCreation_zero = \<lparr>CreationConnectionDetails = []\<rparr>"

definition ExternalUpdate_zero :: ExternalUpdate where
  "ExternalUpdate_zero = \<lparr>UpdateConnectionDetails = []\<rparr>"

text \<open>
  What a lifecycle method leaves behind: the value and the error it returns, the object
  it was given as the method left it, and the requests it sent, in order, each with the
  object as it stood when the request was sent.
\<close>

record ('r, 'm, 'e, 'o) outcome =
  result :: 'r
  err :: "'e go_error option"
  object :: "('m, 'o) Managed"
  calls :: "('m call \<times> 'm IAMUserPolicyAttachment) list"

subsection \<open>Observe\<close>

text \<open>The loop over the attached policies stops at the first one with the wanted ARN.\<close>

fun find_attached :: "string \<Rightarrow> AttachedPolicy list \<Rightarrow> AttachedPolicy option" where
  "find_attached arn [] = None"
| "find_attached arn (policy # rest) =
     (if arn = aws_StringValue (PolicyArn policy) then Some policy
      else find_attached arn rest)"

text \<open>The end of \<^verbatim>\<open>Observe\<close>, from \<^verbatim>\<open>cr.SetConditions(xpv1.Available())\<close> on.\<close>

definition Observe_available ::
  "nat \<Rightarrow> AttachedPolicy \<Rightarrow> 'm IAMUserPolicyAttachment \<Rightarrow>
   ('m call \<times> 'm IAMUserPolicyAttachment) list \<Rightarrow>
   (ExternalObservation, 'm, 'e, 'o) outcome" where
  "Observe_available now attachedPolicyObject cr sent =
     (let cr1 = cr_SetConditions [Available now] cr;
          cr2 = cr1\<lparr>Status := (Status cr1)\<lparr>AtProvider :=
                  \<lparr>AttachedPolicyARN = aws_StringValue (PolicyArn attachedPolicyObject)\<rparr>\<rparr>\<rparr>
      in \<lparr>result = \<lparr>ResourceExists = True, ResourceUpToDate = True,
                      ObservationConnectionDetails = []\<rparr>,
          err = None, object = Attachment cr2, calls = sent\<rparr>)"

text \<open>
  The late initialisation: the parameters are copied, the helper rewrites them in the
  object, and the object goes to the store only if the two differ.
\<close>

definition Observe_found ::
  "('m, 'e) external \<Rightarrow> nat \<Rightarrow> AttachedPolicy \<Rightarrow> 'm IAMUserPolicyAttachment \<Rightarrow>
   ('m call \<times> 'm IAMUserPolicyAttachment) list \<Rightarrow>
   (ExternalObservation, 'm, 'e, 'o) outcome" where
  "Observe_found e now attachedPolicyObject cr sent =
     (let current = ForProvider (Spec cr);
          cr1 = cr\<lparr>Spec := (Spec cr)\<lparr>ForProvider :=
                  LateInitializeUserPolicy e (ForProvider (Spec cr)) attachedPolicyObject\<rparr>\<rparr>
      in if current \<noteq> ForProvider (Spec cr1) then
           (case kube_Update e cr1 of
              (Some er, cr2) \<Rightarrow>
                \<lparr>result = ExternalObservation_zero,
                 err = Some (errors_Wrap er errKubeUpdateFailed),
                 object = Attachment cr2, calls = sent @ [(kube_Update_call cr1, cr1)]\<rparr>
            | (None, cr2) \<Rightarrow>
                Observe_available now attachedPolicyObject cr2
                  (sent @ [(kube_Update_call cr1, cr1)]))
         else Observe_available now attachedPolicyObject cr1 sent)"

definition Observe ::
  "('m, 'e) external \<Rightarrow> nat \<Rightarrow> ('m, 'o) Managed \<Rightarrow>
   (ExternalObservation, 'm, 'e, 'o) outcome" where
  "Observe e now mgd =
     (case mgd of
        OtherKind x \<Rightarrow>
          \<lparr>result = ExternalObservation_zero, err = Some (errors_New errUnexpectedObject),
           object = mgd, calls = []\<rparr>
      | Attachment cr \<Rightarrow>
          (let input = aws_String (UserName (ForProvider (Spec cr)));
               sent = [(ListAttachedUserPoliciesRequest input, cr)]
           in case client_ListAttachedUserPolicies e input of
                Inl er \<Rightarrow>
                  \<lparr>result = ExternalObservation_zero,
                   err = awsclient_Wrap (resource_Ignore (IsErrorNotFound e) (Some er)) errGet,
                   object = mgd, calls = sent\<rparr>
              | Inr AttachedPolicies \<Rightarrow>
                  (case find_attached (PolicyARN (ForProvider (Spec cr))) AttachedPolicies of
                     None \<Rightarrow>
                       \<lparr>result = \<lparr>ResourceExists = False, ResourceUpToDate = False,
                                   ObservationConnectionDetails = []\<rparr>,
                        err = None, object = mgd, calls = sent\<rparr>
                   | Some attachedPolicyObject \<Rightarrow>
                       Observe_found e now attachedPolicyObject cr sent)))"

subsection \<open>Create, Update, Delete\<close>

definition Create ::
  "('m, 'e) external \<Rightarrow> nat \<Rightarrow> ('m, 'o) Managed \<Rightarrow>
   (ExternalCreation, 'm, 'e, 'o) outcome" where
  "Create e now mgd =
     (case mgd of
        OtherKind x \<Rightarrow>
          \<lparr>result = ExternalCreation_zero, err = Some (errors_New errUnexpectedObject),
           object = mgd, calls = []\<rparr>
      | Attachment cr \<Rightarrow>
          (let cr1 = cr_SetConditions [Creating now] cr;
               arn = aws_String (PolicyARN (ForProvider (Spec cr1)));
               user = aws_String (UserName (ForProvider (Spec cr1)));
               er = client_AttachUserPolicy e arn user
           in \<lparr>result = ExternalCreation_zero, err = awsclient_Wrap er errAttach,
               object = Attachment cr1, calls = [(AttachUserPolicyRequest arn user, cr1)]\<rparr>))"

text \<open>\<^verbatim>\<open>Update\<close> names neither of its arguments.\<close>

definition Update ::
  "('m, 'e) external \<Rightarrow> ('m, 'o) Managed \<Rightarrow> (ExternalUpdate, 'm, 'e, 'o) outcome" where
  "Update e mgd = \<lparr>result = ExternalUpdate_zero, err = None, object = mgd, calls = []\<rparr>"

definition Delete ::
  "('m, 'e) external \<Rightarrow> nat \<Rightarrow> ('m, 'o) Managed \<Rightarrow> (unit, 'm, 'e, 'o) outcome" where
  "Delete e now mgd =
     (case mgd of
        OtherKind x \<Rightarrow>
          \<lparr>result = (), err = Some (errors_New errUnexpectedObject),
           object = mgd, calls = []\<rparr>
      | Attachment cr \<Rightarrow>
          (let cr1 = cr_SetConditions [Deleting now] cr;
               arn = aws_String (PolicyARN (ForProvider (Spec cr1)));
               user = aws_String (UserName (ForProvider (Spec cr1)));
               er = client_DetachUserPolicy e arn user
           in \<lparr>result = (),
               err = awsclient_Wrap (resource_Ignore (IsErrorNotFound e) er) errDetach,
               object = Attachment cr1, calls = [(DetachUserPolicyRequest arn user, cr1)]\<rparr>))"

subsection \<open>Notions the properties use\<close>

text \<open>
  A condition is set on an object when \<^verbatim>\<open>GetCondition\<close> for its type returns a condition
  \<^verbatim>\<open>Equal\<close> to it. \<open>late_initialized\<close> is the object after the late-initialisation
  helper has rewritten its parameters.
\<close>

definition condition_set :: "Condition \<Rightarrow> ('m, 'o) Managed \<Rightarrow> bool" where
  "condition_set c mgd =
     (case mgd of
        Attachment cr \<Rightarrow> Condition_Equal (GetCondition (Conditions (Status cr)) (Type c)) c
      | OtherKind x \<Rightarrow> False)"

definition late_initialized ::
  "('m, 'e) external \<Rightarrow> AttachedPolicy \<Rightarrow> 'm IAMUserPolicyAttachment \<Rightarrow>
   'm IAMUserPolicyAttachment" where
  "late_initialized e p cr =
     cr\<lparr>Spec := (Spec cr)\<lparr>ForProvider :=
        LateInitializeUserPolicy e (ForProvider (Spec cr)) p\<rparr>\<rparr>"

text \<open>The store was written when an update call is among the calls.\<close>

definition store_written :: "('r, 'm, 'e, 'o) outcome \<Rightarrow> bool" where
  "store_written out =
     list_ex (\<lambda>c. case fst c of kube_Update_call x \<Rightarrow> True | _ \<Rightarrow> False) (calls out)"

subsection \<open>The late-initialisation helper of the repository\<close>

text \<open>
  Modelled from the spec: \<^verbatim>\<open>iam.LateInitializeUserPolicy\<close> of \<^verbatim>\<open>pkg/clients/iam\<close>, which is
  not among the sources. The spec has late initialisation copy provider-observed values
  into the desired-state fields the user left unset and never overwrite a set one. The
  observed policy offers one such value, its ARN: it is filled in when the desired ARN is
  empty. \<open>with_iam_helper\<close> is an \<^verbatim>\<open>external\<close> wired with this helper, whatever its client
  and store.
\<close>

definition LateInitializeString :: "string \<Rightarrow> string option \<Rightarrow> string" where
  "LateInitializeString inp src =
     (if inp = [] then (case src of None \<Rightarrow> inp | Some s \<Rightarrow> s) else inp)"

definition iam_LateInitializeUserPolicy ::
  "'m IAMUserPolicyAttachmentParameters_scheme \<Rightarrow> AttachedPolicy \<Rightarrow>
   'm IAMUserPolicyAttachmentParameters_scheme" where
  "iam_LateInitializeUserPolicy inp observed =
     inp\<lparr>PolicyARN := LateInitializeString (PolicyARN inp) (PolicyArn observed)\<rparr>"

definition with_iam_helper :: "('m, 'e) external \<Rightarrow> ('m, 'e) external" where
  "with_iam_helper e = e\<lparr>LateInitializeUserPolicy := iam_LateInitializeUserPolicy\<rparr>"

subsection \<open>Concrete collaborators and objects\<close>

text \<open>
  A provider client that answers every request the same way, a store that returns the
  object as it got it, the not-found predicate on error codes, and two late-initialisation
  helpers: one that leaves the parameters alone, one that fills a further optional
  parameter, when it is unset, from the observed policy.
\<close>

definition errBoom :: string where
  "errBoom = ''boom''"

definition ErrCodeNoSuchEntityException :: string where
  "ErrCodeNoSuchEntityException = ''NoSuchEntity''"

definition late_keep ::
  "string option IAMUserPolicyAttachmentParameters_scheme \<Rightarrow> AttachedPolicy \<Rightarrow>
   string option IAMUserPolicyAttachmentParameters_scheme" where
  "late_keep p a = p"

definition late_fill ::
  "string option IAMUserPolicyAttachmentParameters_scheme \<Rightarrow> AttachedPolicy \<Rightarrow>
   string option IAMUserPolicyAttachmentParameters_scheme" where
  "late_fill p a =
     (if IAMUserPolicyAttachmentParameters.more p = None
      then p\<lparr>IAMUserPolicyAttachmentParameters.more := PolicyName a\<rparr> else p)"

definition mock_external ::
  "(string + AttachedPolicy list) \<Rightarrow> string option \<Rightarrow> string option \<Rightarrow> string option \<Rightarrow>
   (string option IAMUserPolicyAttachmentParameters_scheme \<Rightarrow> AttachedPolicy \<Rightarrow>
    string option IAMUserPolicyAttachmentParameters_scheme) \<Rightarrow>
   (string option, string) external" where
  "mock_external listed attached detached stored late =
     \<lparr>client_ListAttachedUserPolicies = (\<lambda>input. listed),
      client_AttachUserPolicy = (\<lambda>arn user. attached),
      client_DetachUserPolicy = (\<lambda>arn user. detached),
      kube_Update = (\<lambda>cr. (stored, cr)),
      IsErrorNotFound = (\<lambda>er. er = ErrCodeNoSuchEntityException),
      LateInitializeUserPolicy = late\<rparr>"

definition attachment :: "string \<Rightarrow> string \<Rightarrow> string option IAMUserPolicyAttachment" where
  "attachment arn user =
     \<lparr>Spec = \<lparr>ForProvider = \<lparr>PolicyARN = arn, UserName = user, \<dots> = None\<rparr>\<rparr>,
      Status = \<lparr>Conditions = [], AtProvider = \<lparr>AttachedPolicyARN = []\<rparr>\<rparr>\<rparr>"

definition policy :: "string \<Rightarrow> string \<Rightarrow> AttachedPolicy" where
  "policy arn name = \<lparr>PolicyArn = Some arn, PolicyName = Some name\<rparr>"

section \<open>Deep copies of the Secrets Manager parameters\<close>

text \<open>
  The embedding follows the generated \<^verbatim>\<open>DeepCopyInto\<close> and \<^verbatim>\<open>DeepCopy\<close> of
  \<^verbatim>\<open>SecretParameters\<close> and \<^verbatim>\<open>SecretSelector\<close>. Whether a copy shares storage with
  its original is a question about pointers, so structs live in a heap and a pointer is
  an address, \<open>None\<close> for \<^verbatim>\<open>nil\<close>.
\<close>

subsection \<open>Structs and the heap\<close>

text \<open>
  The struct declarations are not among the sources; the fields are those the copy
  functions touch and the schema under \<^verbatim>\<open>package/crds\<close> lists. \<open>Tag\<close> is a key and
  a value, \<open>Reference\<close> a name, \<open>SecretReference\<close> a name and a namespace.
\<close>

type_synonym addr = nat

datatype Tag = Tag string string

datatype Reference = Reference string

datatype SecretReference = SecretReference_of string string

text \<open>
  What a pointer to a value without pointers of its own leads to. A map of labels is
  held by reference as well.
\<close>

datatype leaf =
  String_leaf string
| Bool_leaf bool
| Int64_leaf "64 word"
| Reference_leaf Reference
| SecretReference_leaf SecretReference
| Labels_leaf "(string \<times> string) list"

record Selector =
  MatchLabels :: "addr option"
  MatchControllerRef :: "addr option"

record SecretSelector =
  SecretReference :: "addr option"
  Key :: string

text \<open>A slice is a window of a backing array: its address, an offset and a length.\<close>

record slice =
  arr :: addr
  off :: nat
  len :: nat

record SecretParameters =
  Region :: string
  Description :: "addr option"
  KmsKeyID :: "addr option"
  KmsKeyRef :: "addr option"
  KmsKeySelector :: "addr option"
  SecretRef :: "addr option"
  ForceDeleteWithoutRecovery :: "addr option"
  RecoveryWindowInDays :: "addr option"
  Tags :: "slice option"

text \<open>
  The heap keeps the cells of each kind apart, as Go's types do: a pointer to a
  \<^verbatim>\<open>Selector\<close> never leads to a string. An address is an index into the cells of its
  kind, and allocation appends a cell.
\<close>

record heap =
  leaves :: "leaf list"
  selectors :: "Selector list"
  secretSelectors :: "SecretSelector list"
  tagArrays :: "Tag list list"
  secretParameters :: "SecretParameters list"

definition lookup :: "'a list \<Rightarrow> addr \<Rightarrow> 'a option" where
  "lookup xs a = (if a < length xs then Some (xs ! a) else None)"

definition Selector_zero :: Selector where
  "Selector_zero = \<lparr>MatchLabels = None, MatchControllerRef = None\<rparr>"

definition SecretSelector_zero :: SecretSelector where
  "SecretSelector_zero = \<lparr>SecretReference = None, Key = []\<rparr>"

definition SecretParameters_zero :: SecretParameters where
  "SecretParameters_zero =
     \<lparr>Region = [], Description = None, KmsKeyID = None, KmsKeyRef = None,
      KmsKeySelector = None, SecretRef = None, ForceDeleteWithoutRecovery = None,
      RecoveryWindowInDays = None, Tags = None\<rparr>"

subsection \<open>The generated copies\<close>

text \<open>
  The block \<^verbatim>\<open>if in.F != nil { in, out := &in.F, &out.F; *out = new(T); **out = **in }\<close>
  for a field \<^verbatim>\<open>F\<close> of a \<^verbatim>\<open>Selector\<close>: allocate the zero value, store its address in
  the field of \<^verbatim>\<open>out\<close>, then copy what the field of \<^verbatim>\<open>in\<close> leads to. A read through a
  pointer that leads nowhere gives \<open>None\<close>.
\<close>

definition Selector_copy_leaf ::
  "(Selector \<Rightarrow> addr option) \<Rightarrow> ((addr option \<Rightarrow> addr option) \<Rightarrow> Selector \<Rightarrow> Selector) \<Rightarrow>
   leaf \<Rightarrow> addr \<Rightarrow> addr \<Rightarrow> heap \<Rightarrow> heap option" where
  "Selector_copy_leaf field field_update zero i out h =
     do {
       s \<leftarrow> lookup (selectors h) i;
       case field s of
         None \<Rightarrow> Some h
       | Some _ \<Rightarrow>
           do {
             let a = length (leaves h);
             let h1 = h\<lparr>leaves := leaves h @ [zero]\<rparr>;
             t \<leftarrow> lookup (selectors h1) out;
             let h2 = h1\<lparr>selectors := (selectors h1)[out := field_update (\<lambda>_. Some a) t]\<rparr>;
             s2 \<leftarrow> lookup (selectors h2) i;
             p \<leftarrow> field s2;
             v \<leftarrow> lookup (leaves h2) p;
             Some (h2\<lparr>leaves := (leaves h2)[a := v]\<rparr>)
           }
     }"

text \<open>
  \<^verbatim>\<open>Selector.DeepCopyInto\<close> of crossplane-runtime, generated like the ones here: the
  struct is assigned, then the label map and the flag are copied into fresh cells.
\<close>

definition Selector_DeepCopyInto :: "addr \<Rightarrow> addr \<Rightarrow> heap \<Rightarrow> heap option" where
  "Selector_DeepCopyInto i out h =
     do {
       s \<leftarrow> lookup (selectors h) i;
       _ \<leftarrow> lookup (selectors h) out;
       let h0 = h\<lparr>selectors := (selectors h)[out := s]\<rparr>;
       h1 \<leftarrow> Selector_copy_leaf MatchLabels MatchLabels_update (Labels_leaf []) i out h0;
       Selector_copy_leaf MatchControllerRef MatchControllerRef_update (Bool_leaf False) i out h1
     }"

text \<open>\<^verbatim>\<open>SecretSelector.DeepCopyInto\<close>: the struct is assigned, then the reference is copied.\<close>

definition SecretSelector_DeepCopyInto :: "addr \<Rightarrow> addr \<Rightarrow> heap \<Rightarrow> heap option" where
  "SecretSelector_DeepCopyInto i out h =
     do {
       s \<leftarrow> lookup (secretSelectors h) i;
       _ \<leftarrow> lookup (secretSelectors h) out;
       let h0 = h\<lparr>secretSelectors := (secretSelectors h)[out := s]\<rparr>;
       s1 \<leftarrow> lookup (secretSelectors h0) i;
       case SecretReference s1 of
         None \<Rightarrow> Some h0
       | Some _ \<Rightarrow>
           do {
             let a = length (leaves h0);
             let h1 = h0\<lparr>leaves := leaves h0 @ [SecretReference_leaf (SecretReference_of [] [])]\<rparr>;
             t \<leftarrow> lookup (secretSelectors h1) out;
             let h2 = h1\<lparr>secretSelectors := (secretSelectors h1)[out := t\<lparr>SecretReference := Some a\<rparr>]\<rparr>;
             s2 \<leftarrow> lookup (secretSelectors h2) i;
             p \<leftarrow> SecretReference s2;
             v \<leftarrow> lookup (leaves h2) p;
             Some (h2\<lparr>leaves := (leaves h2)[a := v]\<rparr>)
           }
     }"

text \<open>The same block for a pointer field of \<^verbatim>\<open>SecretParameters\<close>.\<close>

definition copy_leaf_field ::
  "(SecretParameters \<Rightarrow> addr option) \<Rightarrow>
   ((addr option \<Rightarrow> addr option) \<Rightarrow> SecretParameters \<Rightarrow> SecretParameters) \<Rightarrow>
   leaf \<Rightarrow> addr \<Rightarrow> addr \<Rightarrow> heap \<Rightarrow> heap option" where
  "copy_leaf_field field field_update zero i out h =
     do {
       s \<leftarrow> lookup (secretParameters h) i;
       case field s of
         None \<Rightarrow> Some h
       | Some _ \<Rightarrow>
           do {
             let a = length (leaves h);
             let h1 = h\<lparr>leaves := leaves h @ [zero]\<rparr>;
             t \<leftarrow> lookup (secretParameters h1) out;
             let h2 = h1\<lparr>secretParameters :=
                        (secretParameters h1)[out := field_update (\<lambda>_. Some a) t]\<rparr>;
             s2 \<leftarrow> lookup (secretParameters h2) i;
             p \<leftarrow> field s2;
             v \<leftarrow> lookup (leaves h2) p;
             Some (h2\<lparr>leaves := (leaves h2)[a := v]\<rparr>)
           }
     }"

text \<open>
  The two fields that are copied by the \<^verbatim>\<open>DeepCopyInto\<close> of their own type:
  \<^verbatim>\<open>*out = new(T); (*in).DeepCopyInto(*out)\<close>.
\<close>

definition copy_KmsKeySelector :: "addr \<Rightarrow> addr \<Rightarrow> heap \<Rightarrow> heap option" where
  "copy_KmsKeySelector i out h =
     do {
       s \<leftarrow> lookup (secretParameters h) i;
       case KmsKeySelector s of
         None \<Rightarrow> Some h
       | Some _ \<Rightarrow>
           do {
             let a = length (selectors h);
             let h1 = h\<lparr>selectors := selectors h @ [Selector_zero]\<rparr>;
             t \<leftarrow> lookup (secretParameters h1) out;
             let h2 = h1\<lparr>secretParameters :=
                        (secretParameters h1)[out := t\<lparr>KmsKeySelector := Some a\<rparr>]\<rparr>;
             s2 \<leftarrow> lookup (secretParameters h2) i;
             p \<leftarrow> KmsKeySelector s2;
             Selector_DeepCopyInto p a h2
           }
     }"

definition copy_SecretRef :: "addr \<Rightarrow> addr \<Rightarrow> heap \<Rightarrow> heap option" where
  "copy_SecretRef i out h =
     do {
       s \<leftarrow> lookup (secretParameters h) i;
       case SecretRef s of
         None \<Rightarrow> Some h
       | Some _ \<Rightarrow>
           do {
             let a = length (secretSelectors h);
             let h1 = h\<lparr>secretSelectors := secretSelectors h @ [SecretSelector_zero]\<rparr>;
             t \<leftarrow> lookup (secretParameters h1) out;
             let h2 = h1\<lparr>secretParameters :=
                        (secretParameters h1)[out := t\<lparr>SecretRef := Some a\<rparr>]\<rparr>;
             s2 \<leftarrow> lookup (secretParameters h2) i;
             p \<leftarrow> SecretRef s2;
             SecretSelector_DeepCopyInto p a h2
           }
     }"

text \<open>
  The elements a slice shows, \<^verbatim>\<open>copy(dst, src)\<close>, which copies as many elements as the
  shorter of the two holds, and the block for \<^verbatim>\<open>Tags\<close>:
  \<^verbatim>\<open>*out = make([]Tag, len(*in)); copy(*out, *in)\<close>.
\<close>

definition slice_value :: "heap \<Rightarrow> slice \<Rightarrow> Tag list option" where
  "slice_value h sl =
     do {
       xs \<leftarrow> lookup (tagArrays h) (arr sl);
       if off sl + len sl \<le> length xs then Some (take (len sl) (drop (off sl) xs)) else None
     }"

definition copy_slice :: "slice \<Rightarrow> slice \<Rightarrow> heap \<Rightarrow> heap option" where
  "copy_slice dst src h =
     do {
       d \<leftarrow> lookup (tagArrays h) (arr dst);
       s \<leftarrow> slice_value h src;
       if off dst + len dst \<le> length d then
         (let n = min (len dst) (len src)
          in Some (h\<lparr>tagArrays := (tagArrays h)
                 [arr dst := take (off dst) d @ take n s @ drop (off dst + n) d]\<rparr>))
       else None
     }"

definition copy_Tags :: "addr \<Rightarrow> addr \<Rightarrow> heap \<Rightarrow> heap option" where
  "copy_Tags i out h =
     do {
       s \<leftarrow> lookup (secretParameters h) i;
       case Tags s of
         None \<Rightarrow> Some h
       | Some src \<Rightarrow>
           do {
             let a = length (tagArrays h);
             let h1 = h\<lparr>tagArrays := tagArrays h @ [replicate (len src) (Tag [] [])]\<rparr>;
             let dst = \<lparr>arr = a, off = 0, len = len src\<rparr>;
             t \<leftarrow> lookup (secretParameters h1) out;
             let h2 = h1\<lparr>secretParameters :=
                        (secretParameters h1)[out := t\<lparr>Tags := Some dst\<rparr>]\<rparr>;
             s2 \<leftarrow> lookup (secretParameters h2) i;
             src2 \<leftarrow> Tags s2;
             t2 \<leftarrow> lookup (secretParameters h2) out;
             dst2 \<leftarrow> Tags t2;
             copy_slice dst2 src2 h2
           }
     }"

text \<open>\<^verbatim>\<open>SecretParameters.DeepCopyInto\<close>: \<^verbatim>\<open>*out = *in\<close>, then the fields in the source's order.\<close>

definition SecretParameters_DeepCopyInto :: "addr \<Rightarrow> addr \<Rightarrow> heap \<Rightarrow> heap option" where
  "SecretParameters_DeepCopyInto i out h =
     do {
       s \<leftarrow> lookup (secretParameters h) i;
       _ \<leftarrow> lookup (secretParameters h) out;
       let h0 = h\<lparr>secretParameters := (secretParameters h)[out := s]\<rparr>;
       h1 \<leftarrow> copy_leaf_field Description Description_update (String_leaf []) i out h0;
       h2 \<leftarrow> copy_leaf_field KmsKeyID KmsKeyID_update (String_leaf []) i out h1;
       h3 \<leftarrow> copy_leaf_field KmsKeyRef KmsKeyRef_update (Reference_leaf (Reference [])) i out h2;
       h4 \<leftarrow> copy_KmsKeySelector i out h3;
       h5 \<leftarrow> copy_SecretRef i out h4;
       h6 \<leftarrow> copy_leaf_field ForceDeleteWithoutRecovery ForceDeleteWithoutRecovery_update
               (Bool_leaf False) i out h5;
       h7 \<leftarrow> copy_leaf_field RecoveryWindowInDays RecoveryWindowInDays_update
               (Int64_leaf 0) i out h6;
       copy_Tags i out h7
     }"

text \<open>\<^verbatim>\<open>SecretParameters.DeepCopy\<close>: \<^verbatim>\<open>nil\<close> for \<^verbatim>\<open>nil\<close>, else a new struct filled by the above.\<close>

definition SecretParameters_DeepCopy :: "addr option \<Rightarrow> heap \<Rightarrow> (addr option \<times> heap) option" where
  "SecretParameters_DeepCopy inp h =
     (case inp of
        None \<Rightarrow> Some (None, h)
      | Some i \<Rightarrow>
          do {
            let out = length (secretParameters h);
            let h1 = h\<lparr>secretParameters := secretParameters h @ [SecretParameters_zero]\<rparr>;
            h2 \<leftarrow> SecretParameters_DeepCopyInto i out h1;
            Some (Some out, h2)
          })"

subsection \<open>Values, storage and writes\<close>

text \<open>
  The value a pointer stands for, with every pointer followed: \<open>None\<close> when a pointer
  leads outside the heap, which a Go pointer never does.
\<close>

datatype Selector_value = Selector_value "leaf option" "leaf option"

datatype SecretSelector_value = SecretSelector_value "leaf option" string

datatype SecretParameters_value =
  SecretParameters_value string "leaf option" "leaf option" "leaf option"
    "Selector_value option" "SecretSelector_value option" "leaf option" "leaf option"
    "Tag list option"

definition pointee :: "('p \<Rightarrow> 'v option) \<Rightarrow> 'p option \<Rightarrow> 'v option option" where
  "pointee val p = (case p of None \<Rightarrow> Some None | Some a \<Rightarrow> map_option Some (val a))"

definition value_Selector :: "heap \<Rightarrow> addr \<Rightarrow> Selector_value option" where
  "value_Selector h a =
     do {
       s \<leftarrow> lookup (selectors h) a;
       l \<leftarrow> pointee (lookup (leaves h)) (MatchLabels s);
       c \<leftarrow> pointee (lookup (leaves h)) (MatchControllerRef s);
       Some (Selector_value l c)
     }"

definition value_SecretSelector :: "heap \<Rightarrow> addr \<Rightarrow> SecretSelector_value option" where
  "value_SecretSelector h a =
     do {
       s \<leftarrow> lookup (secretSelectors h) a;
       r \<leftarrow> pointee (lookup (leaves h)) (SecretReference s);
       Some (SecretSelector_value r (Key s))
     }"

definition value_SecretParameters :: "heap \<Rightarrow> addr \<Rightarrow> SecretParameters_value option" where
  "value_SecretParameters h a =
     do {
       s \<leftarrow> lookup (secretParameters h) a;
       d \<leftarrow> pointee (lookup (leaves h)) (Description s);
       k \<leftarrow> pointee (lookup (leaves h)) (KmsKeyID s);
       r \<leftarrow> pointee (lookup (leaves h)) (KmsKeyRef s);
       sel \<leftarrow> pointee (value_Selector h) (KmsKeySelector s);
       sec \<leftarrow> pointee (value_SecretSelector h) (SecretRef s);
       f \<leftarrow> pointee (lookup (leaves h)) (ForceDeleteWithoutRecovery s);
       w \<leftarrow> pointee (lookup (leaves h)) (RecoveryWindowInDays s);
       ts \<leftarrow> pointee (slice_value h) (Tags s);
       Some (SecretParameters_value (Region s) d k r sel sec f w ts)
     }"

text \<open>The storage a value occupies: the cells its pointers and its slice lead to.\<close>

datatype loc =
  Leaf_loc addr
| Selector_loc addr
| SecretSelector_loc addr
| TagArray_loc addr
| SecretParameters_loc addr

definition ptr_locs :: "(addr \<Rightarrow> loc list) \<Rightarrow> addr option \<Rightarrow> loc list" where
  "ptr_locs f p = (case p of None \<Rightarrow> [] | Some a \<Rightarrow> f a)"

definition leaf_locs :: "addr \<Rightarrow> loc list" where
  "leaf_locs a = [Leaf_loc a]"

definition storage_Selector :: "heap \<Rightarrow> addr \<Rightarrow> loc list" where
  "storage_Selector h a =
     Selector_loc a #
     (case lookup (selectors h) a of
        None \<Rightarrow> []
      | Some s \<Rightarrow> ptr_locs leaf_locs (MatchLabels s) @ ptr_locs leaf_locs (MatchControllerRef s))"

definition storage_SecretSelector :: "heap \<Rightarrow> addr \<Rightarrow> loc list" where
  "storage_SecretSelector h a =
     SecretSelector_loc a #
     (case lookup (secretSelectors h) a of
        None \<Rightarrow> []
      | Some s \<Rightarrow> ptr_locs leaf_locs (SecretReference s))"

definition storage_SecretParameters :: "heap \<Rightarrow> addr \<Rightarrow> loc list" where
  "storage_SecretParameters h a =
     SecretParameters_loc a #
     (case lookup (secretParameters h) a of
        None \<Rightarrow> []
      | Some s \<Rightarrow>
          ptr_locs leaf_locs (Description s) @ ptr_locs leaf_locs (KmsKeyID s) @
          ptr_locs leaf_locs (KmsKeyRef s) @
          ptr_locs (storage_Selector h) (KmsKeySelector s) @
          ptr_locs (storage_SecretSelector h) (SecretRef s) @
          ptr_locs leaf_locs (ForceDeleteWithoutRecovery s) @
          ptr_locs leaf_locs (RecoveryWindowInDays s) @
          (case Tags s of None \<Rightarrow> [] | Some sl \<Rightarrow> [TagArray_loc (arr sl)]))"

fun allocated :: "heap \<Rightarrow> loc \<Rightarrow> bool" where
  "allocated h (Leaf_loc a) = (a < length (leaves h))"
| "allocated h (Selector_loc a) = (a < length (selectors h))"
| "allocated h (SecretSelector_loc a) = (a < length (secretSelectors h))"
| "allocated h (TagArray_loc a) = (a < length (tagArrays h))"
| "allocated h (SecretParameters_loc a) = (a < length (secretParameters h))"

text \<open>A write puts any content into one cell.\<close>

datatype heap_write =
  Write_leaf addr leaf
| Write_Selector addr Selector
| Write_SecretSelector addr SecretSelector
| Write_TagArray addr "Tag list"
| Write_SecretParameters addr SecretParameters

fun write_loc :: "heap_write \<Rightarrow> loc" where
  "write_loc (Write_leaf a v) = Leaf_loc a"
| "write_loc (Write_Selector a v) = Selector_loc a"
| "write_loc (Write_SecretSelector a v) = SecretSelector_loc a"
| "write_loc (Write_TagArray a v) = TagArray_loc a"
| "write_loc (Write_SecretParameters a v) = SecretParameters_loc a"

fun apply_write :: "heap_write \<Rightarrow> heap \<Rightarrow> heap" where
  "apply_write (Write_leaf a v) h = h\<lparr>leaves := (leaves h)[a := v]\<rparr>"
| "apply_write (Write_Selector a v) h = h\<lparr>selectors := (selectors h)[a := v]\<rparr>"
| "apply_write (Write_SecretSelector a v) h = h\<lparr>secretSelectors := (secretSelectors h)[a := v]\<rparr>"
| "apply_write (Write_TagArray a v) h = h\<lparr>tagArrays := (tagArrays h)[a := v]\<rparr>"
| "apply_write (Write_SecretParameters a v) h =
     h\<lparr>secretParameters := (secretParameters h)[a := v]\<rparr>"

text \<open>
  A heap extends another when it has every cell of the other, with the same content;
  it grows from the other when that holds of all cells but the parameter structs.
\<close>

definition grows :: "heap \<Rightarrow> heap \<Rightarrow> bool" where
  "grows h g \<longleftrightarrow>
     take (length (leaves h)) (leaves g) = leaves h \<and>
     take (length (selectors h)) (selectors g) = selectors h \<and>
     take (length (secretSelectors h)) (secretSelectors g) = secretSelectors h \<and>
     take (length (tagArrays h)) (tagArrays g) = tagArrays h"

definition extends :: "heap \<Rightarrow> heap \<Rightarrow> bool" where
  "extends h g \<longleftrightarrow>
     grows h g \<and>
     take (length (secretParameters h)) (secretParameters g) = secretParameters h"

subsection \<open>A concrete heap\<close>

text \<open>
  One parameter struct with a description, a selector with labels, a secret reference,
  the force-delete flag and a \<^verbatim>\<open>Tags\<close> slice showing the last two of three tags; and
  the value it stands for.
\<close>

definition example_heap :: heap where
  "example_heap =
     \<lparr>leaves = [String_leaf ''a secret'', Labels_leaf [(''app'', ''db'')],
                SecretReference_leaf (SecretReference_of ''creds'' ''default''),
                Bool_leaf True],
      selectors = [\<lparr>MatchLabels = Some 1, MatchControllerRef = None\<rparr>],
      secretSelectors = [\<lparr>SecretReference = Some 2, Key = ''password''\<rparr>],
      tagArrays = [[Tag ''team'' ''core'', Tag ''env'' ''prod'', Tag ''x'' ''y'']],
      secretParameters =
        [\<lparr>Region = ''us-east-1'', Description = Some 0, KmsKeyID = None, KmsKeyRef = None,
          KmsKeySelector = Some 0, SecretRef = Some 0,
          ForceDeleteWithoutRecovery = Some 3, RecoveryWindowInDays = None,
          Tags = Some \<lparr>arr = 0, off = 1, len = 2\<rparr>\<rparr>]\<rparr>"

definition example_value :: SecretParameters_value where
  "example_value =
     SecretParameters_value ''us-east-1'' (Some (String_leaf ''a secret'')) None None
       (Some (Selector_value (Some (Labels_leaf [(''app'', ''db'')])) None))
       (Some (SecretSelector_value
          (Some (SecretReference_leaf (SecretReference_of ''creds'' ''default''))) ''password''))
       (Some (Bool_leaf True)) None (Some [Tag ''env'' ''prod'', Tag ''x'' ''y''])"

section \<open>Properties of the controller\<close>

subsection \<open>Conditions and the search for the policy\<close>

lemma overwrite_no_type: "\<not> has_type (Type new) cs \<Longrightarrow> overwrite new cs = cs"
  by (induction cs) (auto split: if_splits)

lemma GetCondition_append_new:
  "\<not> has_type ct cs \<Longrightarrow> Type new = ct \<Longrightarrow> GetCondition (cs @ [new]) ct = new"
  by (induction cs) (auto split: if_splits)

lemma GetCondition_overwrite:
  "has_type (Type new) cs \<Longrightarrow>
   Condition_Equal (GetCondition (overwrite new cs) (Type new)) new"
  by (induction cs) (auto simp: Condition_Equal_def split: if_splits)

lemma Condition_Equal_refl: "Condition_Equal c c"
  by (simp add: Condition_Equal_def)

lemma GetCondition_SetCondition:
  "Condition_Equal (GetCondition (SetCondition new cs) (Type new)) new"
proof (cases "has_type (Type new) cs")
  case True
  then show ?thesis by (simp add: SetCondition_def GetCondition_overwrite)
next
  case False
  then show ?thesis
    by (simp add: SetCondition_def overwrite_no_type GetCondition_append_new
        Condition_Equal_refl)
qed

lemma condition_set_cr_SetConditions:
  "condition_set c (Attachment (cr_SetConditions [c] cr))"
  by (simp add: condition_set_def cr_SetConditions_def GetCondition_SetCondition)

lemma find_attached_None:
  "find_attached arn ps = None \<longleftrightarrow> (\<forall>p \<in> set ps. aws_StringValue (PolicyArn p) \<noteq> arn)"
  by (induction ps) auto

lemma find_attached_Some:
  "find_attached arn ps = Some p \<Longrightarrow>
   \<exists>pre post. ps = pre @ p # post \<and> aws_StringValue (PolicyArn p) = arn \<and>
     (\<forall>q \<in> set pre. aws_StringValue (PolicyArn q) \<noteq> arn)"
proof (induction ps)
  case Nil
  then show ?case by simp
next
  case (Cons a ps)
  show ?case
  proof (cases "arn = aws_StringValue (PolicyArn a)")
    case True
    with Cons.prems have "p = a" by simp
    with True have "a # ps = [] @ p # ps \<and> aws_StringValue (PolicyArn p) = arn \<and>
      (\<forall>q \<in> set []. aws_StringValue (PolicyArn q) \<noteq> arn)" by simp
    then show ?thesis by blast
  next
    case False
    with Cons.prems have "find_attached arn ps = Some p" by simp
    from Cons.IH[OF this] obtain pre post where
      h: "ps = pre @ p # post" "aws_StringValue (PolicyArn p) = arn"
        "\<forall>q \<in> set pre. aws_StringValue (PolicyArn q) \<noteq> arn" by blast
    with False have "a # ps = (a # pre) @ p # post \<and> aws_StringValue (PolicyArn p) = arn \<and>
      (\<forall>q \<in> set (a # pre). aws_StringValue (PolicyArn q) \<noteq> arn)" by auto
    then show ?thesis by blast
  qed
qed

subsection \<open>The branches of Observe\<close>

lemma Observe_listed:
  "client_ListAttachedUserPolicies e (Some (UserName (ForProvider (Spec cr)))) = Inr ps \<Longrightarrow>
   find_attached (PolicyARN (ForProvider (Spec cr))) ps = Some p \<Longrightarrow>
   Observe e now (Attachment cr) =
     Observe_found e now p cr
       [(ListAttachedUserPoliciesRequest (Some (UserName (ForProvider (Spec cr)))), cr)]"
  by (simp add: Observe_def aws_String_def)

lemma Observe_missing:
  "client_ListAttachedUserPolicies e (Some (UserName (ForProvider (Spec cr)))) = Inr ps \<Longrightarrow>
   find_attached (PolicyARN (ForProvider (Spec cr))) ps = None \<Longrightarrow>
   Observe e now (Attachment cr) =
     \<lparr>result = \<lparr>ResourceExists = False, ResourceUpToDate = False,
                 ObservationConnectionDetails = []\<rparr>,
      err = None, object = Attachment cr,
      calls = [(ListAttachedUserPoliciesRequest (Some (UserName (ForProvider (Spec cr)))), cr)]\<rparr>"
  by (simp add: Observe_def aws_String_def)

lemma Observe_failed:
  "client_ListAttachedUserPolicies e (Some (UserName (ForProvider (Spec cr)))) = Inl er \<Longrightarrow>
   Observe e now (Attachment cr) =
     \<lparr>result = ExternalObservation_zero,
      err = (if IsErrorNotFound e er then None else Some (errors_Wrap er errGet)),
      object = Attachment cr,
      calls = [(ListAttachedUserPoliciesRequest (Some (UserName (ForProvider (Spec cr)))), cr)]\<rparr>"
  by (simp add: Observe_def aws_String_def)

lemma Observe_found_unchanged:
  "LateInitializeUserPolicy e (ForProvider (Spec cr)) p = ForProvider (Spec cr) \<Longrightarrow>
   Observe_found e now p cr sent = Observe_available now p cr sent"
  by (simp add: Observe_found_def Let_def)

lemma Observe_found_stored:
  "LateInitializeUserPolicy e (ForProvider (Spec cr)) p \<noteq> ForProvider (Spec cr) \<Longrightarrow>
   kube_Update e (late_initialized e p cr) = (None, cr2) \<Longrightarrow>
   Observe_found e now p cr sent =
     Observe_available now p cr2
       (sent @ [(kube_Update_call (late_initialized e p cr), late_initialized e p cr)])"
  by (simp add: Observe_found_def Let_def late_initialized_def)

lemma Observe_found_store_failed:
  "LateInitializeUserPolicy e (ForProvider (Spec cr)) p \<noteq> ForProvider (Spec cr) \<Longrightarrow>
   kube_Update e (late_initialized e p cr) = (Some er, cr2) \<Longrightarrow>
   Observe_found e now p cr sent =
     \<lparr>result = ExternalObservation_zero, err = Some (errors_Wrap er errKubeUpdateFailed),
      object = Attachment cr2,
      calls = sent @ [(kube_Update_call (late_initialized e p cr), late_initialized e p cr)]\<rparr>"
  by (simp add: Observe_found_def Let_def late_initialized_def)

lemma Observe_available_result:
  "result (Observe_available now p cr sent :: (ExternalObservation, 'm, 'e, 'o) outcome) =
     \<lparr>ResourceExists = True, ResourceUpToDate = True, ObservationConnectionDetails = []\<rparr>"
  by (simp add: Observe_available_def Let_def)

lemma Observe_available_calls:
  "calls (Observe_available now p cr sent :: (ExternalObservation, 'm, 'e, 'o) outcome) = sent"
  by (simp add: Observe_available_def Let_def)

lemma Observe_available_condition:
  "condition_set (Available now)
     (object (Observe_available now p cr sent :: (ExternalObservation, 'm, 'e, 'o) outcome))"
  by (simp add: Observe_available_def Let_def condition_set_def cr_SetConditions_def
      GetCondition_SetCondition)

lemma Observe_available_object:
  "\<exists>cr'. object (Observe_available now p cr sent :: (ExternalObservation, 'm, 'e, 'o) outcome)
       = Attachment cr' \<and>
     AttachedPolicyARN (AtProvider (Status cr')) = aws_StringValue (PolicyArn p)"
  by (simp add: Observe_available_def Let_def)

text \<open>
  With the repository's helper the found branch never reaches the store: the policy found
  carries the desired ARN, so the helper changes nothing.
\<close>

lemma LateInitializeString_same:
  "aws_StringValue src = inp \<Longrightarrow> LateInitializeString inp src = inp"
  by (cases src) (auto simp: LateInitializeString_def)

lemma iam_LateInitializeUserPolicy_attached:
  assumes "aws_StringValue (PolicyArn p) = PolicyARN inp"
  shows "iam_LateInitializeUserPolicy inp p = inp"
  using LateInitializeString_same[OF assms]
  by (simp add: iam_LateInitializeUserPolicy_def)

lemma Observe_iam_found:
  assumes l: "client_ListAttachedUserPolicies e (Some (UserName (ForProvider (Spec cr)))) = Inr ps"
    and f: "find_attached (PolicyARN (ForProvider (Spec cr))) ps = Some p"
  shows "(Observe (with_iam_helper e) now (Attachment cr) :: (ExternalObservation, 'm, 'e, 'o) outcome) =
     Observe_available now p cr
       [(ListAttachedUserPoliciesRequest (Some (UserName (ForProvider (Spec cr)))), cr)]"
proof -
  let ?sent = "[(ListAttachedUserPoliciesRequest (Some (UserName (ForProvider (Spec cr)))), cr)]"
  from l have l': "client_ListAttachedUserPolicies (with_iam_helper e)
      (Some (UserName (ForProvider (Spec cr)))) = Inr ps"
    by (simp add: with_iam_helper_def)
  from find_attached_Some[OF f]
  have "aws_StringValue (PolicyArn p) = PolicyARN (ForProvider (Spec cr))" by blast
  then have k: "LateInitializeUserPolicy (with_iam_helper e) (ForProvider (Spec cr)) p
      = ForProvider (Spec cr)"
    by (simp add: with_iam_helper_def iam_LateInitializeUserPolicy_attached)
  have "(Observe (with_iam_helper e) now (Attachment cr) :: (ExternalObservation, 'm, 'e, 'o) outcome)
      = Observe_found (with_iam_helper e) now p cr ?sent"
    using l' f by (rule Observe_listed)
  also have "\<dots> = Observe_available now p cr ?sent"
    using k by (rule Observe_found_unchanged)
  finally show ?thesis .
qed

subsection \<open>The claims\<close>

text \<open>
  C1 (as amended). For an object that is not an attachment, \<^verbatim>\<open>Observe\<close>, \<^verbatim>\<open>Create\<close> and
  \<^verbatim>\<open>Delete\<close> return the unexpected-object error, send no request and leave the object as
  it was. \<^verbatim>\<open>Update\<close> checks no type: it returns no error, and it too leaves the object
  as it was.
\<close>

theorem wrong_kind_rejected:
  "err (Observe e now (OtherKind x)) = Some (errors_New errUnexpectedObject) \<and>
   object (Observe e now (OtherKind x)) = OtherKind x \<and>
   calls (Observe e now (OtherKind x)) = [] \<and>
   err (Create e now (OtherKind x)) = Some (errors_New errUnexpectedObject) \<and>
   object (Create e now (OtherKind x)) = OtherKind x \<and>
   calls (Create e now (OtherKind x)) = [] \<and>
   err (Delete e now (OtherKind x)) = Some (errors_New errUnexpectedObject) \<and>
   object (Delete e now (OtherKind x)) = OtherKind x \<and>
   calls (Delete e now (OtherKind x)) = [] \<and>
   err (Update e (OtherKind x)) = None \<and>
   object (Update e (OtherKind x)) = OtherKind x \<and>
   calls (Update e (OtherKind x)) = []"
  by (simp add: Observe_def Create_def Delete_def Update_def)

text \<open>The amended C1 at an object of another kind.\<close>

theorem wrong_kind_rejected_witness:
  "err (Observe (mock_external (Inr []) None None None late_keep) 0 (OtherKind ''IAMRole''))
     = Some (errors_New errUnexpectedObject) \<and>
   err (Update (mock_external (Inr []) None None None late_keep) (OtherKind ''IAMRole''))
     = None"
  using wrong_kind_rejected [of "mock_external (Inr []) None None None late_keep" 0 "''IAMRole''"]
  by simp

text \<open>
  C1 as stated fails for \<^verbatim>\<open>Update\<close>: on an object of another kind it does not return
  the unexpected-object error.
\<close>

theorem Update_wrong_kind_counterexample:
  "err (Update (mock_external (Inr []) None None None late_keep) (OtherKind ''IAMRole''))
     \<noteq> Some (errors_New errUnexpectedObject)"
  by (simp add: Update_def)

text \<open>
  C2. When the list request fails with an error the predicate classifies as not found,
  or succeeds with no attached policy carrying the desired ARN, \<^verbatim>\<open>Observe\<close> reports that
  the resource does not exist, returns no error, and leaves the object, its conditions
  included, as it was.
\<close>

theorem Observe_absent:
  "(client_ListAttachedUserPolicies e (Some (UserName (ForProvider (Spec cr)))) = Inl er \<and>
      IsErrorNotFound e er
    \<or> client_ListAttachedUserPolicies e (Some (UserName (ForProvider (Spec cr)))) = Inr ps \<and>
      (\<forall>p \<in> set ps. aws_StringValue (PolicyArn p) \<noteq> PolicyARN (ForProvider (Spec cr))))
   \<longrightarrow> ResourceExists (result (Observe e now (Attachment cr :: ('m, 'o) Managed))) = False \<and>
       err (Observe e now (Attachment cr)) = None \<and>
       object (Observe e now (Attachment cr)) = Attachment cr"
proof (intro impI, elim disjE conjE)
  assume "client_ListAttachedUserPolicies e (Some (UserName (ForProvider (Spec cr)))) = Inl er"
    and "IsErrorNotFound e er"
  then show "ResourceExists (result (Observe e now (Attachment cr))) = False \<and>
       err (Observe e now (Attachment cr)) = None \<and>
       object (Observe e now (Attachment cr)) = Attachment cr"
    by (simp add: Observe_failed ExternalObservation_zero_def)
next
  assume l: "client_ListAttachedUserPolicies e (Some (UserName (ForProvider (Spec cr)))) = Inr ps"
    and "\<forall>p \<in> set ps. aws_StringValue (PolicyArn p) \<noteq> PolicyARN (ForProvider (Spec cr))"
  then have "find_attached (PolicyARN (ForProvider (Spec cr))) ps = None"
    by (simp add: find_attached_None)
  with l show "ResourceExists (result (Observe e now (Attachment cr))) = False \<and>
       err (Observe e now (Attachment cr)) = None \<and>
       object (Observe e now (Attachment cr)) = Attachment cr"
    by (simp add: Observe_missing)
qed

text \<open>C2 at a not-found answer and at a list without the desired policy.\<close>

theorem Observe_absent_witness:
  "IsErrorNotFound (mock_external (Inl ErrCodeNoSuchEntityException) None None None late_keep)
     ErrCodeNoSuchEntityException \<and>
   ResourceExists (result (Observe
     (mock_external (Inl ErrCodeNoSuchEntityException) None None None late_keep) 0
     (Attachment (attachment ''arn:a'' ''user'') :: (string option, string) Managed))) = False \<and>
   err (Observe
     (mock_external (Inl ErrCodeNoSuchEntityException) None None None late_keep) 0
     (Attachment (attachment ''arn:a'' ''user'') :: (string option, string) Managed)) = None \<and>
   object (Observe
     (mock_external (Inl ErrCodeNoSuchEntityException) None None None late_keep) 0
     (Attachment (attachment ''arn:a'' ''user'') :: (string option, string) Managed))
     = Attachment (attachment ''arn:a'' ''user'') \<and>
   aws_StringValue (PolicyArn (policy ''arn:b'' ''Other'')) \<noteq> ''arn:a'' \<and>
   ResourceExists (result (Observe
     (mock_external (Inr [policy ''arn:b'' ''Other'']) None None None late_keep) 0
     (Attachment (attachment ''arn:a'' ''user'') :: (string option, string) Managed))) = False \<and>
   err (Observe
     (mock_external (Inr [policy ''arn:b'' ''Other'']) None None None late_keep) 0
     (Attachment (attachment ''arn:a'' ''user'') :: (string option, string) Managed)) = None \<and>
   object (Observe
     (mock_external (Inr [policy ''arn:b'' ''Other'']) None None None late_keep) 0
     (Attachment (attachment ''arn:a'' ''user'') :: (string option, string) Managed))
     = Attachment (attachment ''arn:a'' ''user'')"
proof -
  let ?cr = "attachment ''arn:a'' ''user''"
  let ?n = "mock_external (Inl ErrCodeNoSuchEntityException) None None None late_keep"
  let ?l = "mock_external (Inr [policy ''arn:b'' ''Other'']) None None None late_keep"
  have n: "client_ListAttachedUserPolicies ?n (Some (UserName (ForProvider (Spec ?cr))))
      = Inl ErrCodeNoSuchEntityException \<and> IsErrorNotFound ?n ErrCodeNoSuchEntityException"
    by (simp add: mock_external_def)
  have d: "aws_StringValue (PolicyArn (policy ''arn:b'' ''Other'')) \<noteq> ''arn:a''"
    by (simp add: policy_def)
  then have l: "client_ListAttachedUserPolicies ?l (Some (UserName (ForProvider (Spec ?cr))))
      = Inr [policy ''arn:b'' ''Other''] \<and>
    (\<forall>p \<in> set [policy ''arn:b'' ''Other''].
       aws_StringValue (PolicyArn p) \<noteq> PolicyARN (ForProvider (Spec ?cr)))"
    by (simp add: mock_external_def attachment_def)
  from n Observe_absent [where ?'o = string, of ?n ?cr ErrCodeNoSuchEntityException "[]" 0]
  have "ResourceExists (result (Observe ?n 0
          (Attachment ?cr :: (string option, string) Managed))) = False \<and>
       err (Observe ?n 0 (Attachment ?cr :: (string option, string) Managed)) = None \<and>
       object (Observe ?n 0 (Attachment ?cr :: (string option, string) Managed)) = Attachment ?cr"
    by blast
  moreover
  from l Observe_absent [where ?'o = string, of ?l ?cr errBoom "[policy ''arn:b'' ''Other'']" 0]
  have "ResourceExists (result (Observe ?l 0
          (Attachment ?cr :: (string option, string) Managed))) = False \<and>
       err (Observe ?l 0 (Attachment ?cr :: (string option, string) Managed)) = None \<and>
       object (Observe ?l 0 (Attachment ?cr :: (string option, string) Managed)) = Attachment ?cr"
    by blast
  ultimately show ?thesis using n d by blast
qed

text \<open>
  C3. When \<^verbatim>\<open>Observe\<close>, with the repository's late-initialisation helper, finds the policy
  among the attached ones, it returns no error, leaves the object with the \<^verbatim>\<open>Available\<close>
  condition set and the found ARN recorded, and reports that the resource exists. The
  up-to-date flag agrees with the comparison of the desired ARN with the observed one;
  the two are equal whenever the policy is found, and the flag is true.
\<close>

theorem Observe_found_available:
  "client_ListAttachedUserPolicies e (Some (UserName (ForProvider (Spec cr)))) = Inr ps \<and>
   find_attached (PolicyARN (ForProvider (Spec cr))) ps = Some p \<longrightarrow>
     err (Observe (with_iam_helper e) now (Attachment cr :: ('m, 'o) Managed)) = None \<and>
     object (Observe (with_iam_helper e) now (Attachment cr :: ('m, 'o) Managed)) =
       Attachment ((cr_SetConditions [Available now] cr)
         \<lparr>Status := (Status (cr_SetConditions [Available now] cr))
            \<lparr>AtProvider := \<lparr>AttachedPolicyARN = aws_StringValue (PolicyArn p)\<rparr>\<rparr>\<rparr>) \<and>
     condition_set (Available now)
       (object (Observe (with_iam_helper e) now (Attachment cr :: ('m, 'o) Managed))) \<and>
     ResourceExists (result (Observe (with_iam_helper e) now (Attachment cr :: ('m, 'o) Managed))) \<and>
     (ResourceUpToDate (result (Observe (with_iam_helper e) now (Attachment cr :: ('m, 'o) Managed)))
        \<longleftrightarrow> PolicyARN (ForProvider (Spec cr)) = aws_StringValue (PolicyArn p)) \<and>
     ResourceUpToDate (result (Observe (with_iam_helper e) now (Attachment cr :: ('m, 'o) Managed)))"
proof (intro impI, elim conjE)
  assume l: "client_ListAttachedUserPolicies e (Some (UserName (ForProvider (Spec cr)))) = Inr ps"
    and f: "find_attached (PolicyARN (ForProvider (Spec cr))) ps = Some p"
  note a = Observe_iam_found[OF l f, of now]
  from find_attached_Some[OF f]
  have m: "aws_StringValue (PolicyArn p) = PolicyARN (ForProvider (Spec cr))" by blast
  have "err (Observe (with_iam_helper e) now (Attachment cr :: ('m, 'o) Managed)) = None"
    by (simp add: a Observe_available_def Let_def)
  moreover have "object (Observe (with_iam_helper e) now (Attachment cr :: ('m, 'o) Managed)) =
       Attachment ((cr_SetConditions [Available now] cr)
         \<lparr>Status := (Status (cr_SetConditions [Available now] cr))
            \<lparr>AtProvider := \<lparr>AttachedPolicyARN = aws_StringValue (PolicyArn p)\<rparr>\<rparr>\<rparr>)"
    by (simp add: a Observe_available_def Let_def)
  moreover have "condition_set (Available now)
       (object (Observe (with_iam_helper e) now (Attachment cr :: ('m, 'o) Managed)))"
    by (simp add: a Observe_available_condition)
  moreover have
    "ResourceExists (result (Observe (with_iam_helper e) now (Attachment cr :: ('m, 'o) Managed)))"
    "ResourceUpToDate (result (Observe (with_iam_helper e) now (Attachment cr :: ('m, 'o) Managed)))"
    by (simp_all add: a Observe_available_result)
  ultimately show "err (Observe (with_iam_helper e) now (Attachment cr :: ('m, 'o) Managed)) = None \<and>
     object (Observe (with_iam_helper e) now (Attachment cr :: ('m, 'o) Managed)) =
       Attachment ((cr_SetConditions [Available now] cr)
         \<lparr>Status := (Status (cr_SetConditions [Available now] cr))
            \<lparr>AtProvider := \<lparr>AttachedPolicyARN = aws_StringValue (PolicyArn p)\<rparr>\<rparr>\<rparr>) \<and>
     condition_set (Available now)
       (object (Observe (with_iam_helper e) now (Attachment cr :: ('m, 'o) Managed))) \<and>
     ResourceExists (result (Observe (with_iam_helper e) now (Attachment cr :: ('m, 'o) Managed))) \<and>
     (ResourceUpToDate (result (Observe (with_iam_helper e) now (Attachment cr :: ('m, 'o) Managed)))
        \<longleftrightarrow> PolicyARN (ForProvider (Spec cr)) = aws_StringValue (PolicyArn p)) \<and>
     ResourceUpToDate (result (Observe (with_iam_helper e) now (Attachment cr :: ('m, 'o) Managed)))"
    using m by simp
qed

text \<open>
  C3 where the second attached policy is the desired one, with a store that would refuse
  an update.
\<close>

theorem Observe_found_available_witness:
  "client_ListAttachedUserPolicies
     (mock_external (Inr [policy ''arn:b'' ''Other'', policy ''arn:a'' ''ReadOnly''])
        None None (Some errBoom) late_keep) (Some ''user'')
     = Inr [policy ''arn:b'' ''Other'', policy ''arn:a'' ''ReadOnly''] \<and>
   find_attached ''arn:a'' [policy ''arn:b'' ''Other'', policy ''arn:a'' ''ReadOnly'']
     = Some (policy ''arn:a'' ''ReadOnly'') \<and>
   err (Observe (with_iam_helper
     (mock_external (Inr [policy ''arn:b'' ''Other'', policy ''arn:a'' ''ReadOnly''])
        None None (Some errBoom) late_keep)) 5
     (Attachment (attachment ''arn:a'' ''user'') :: (string option, string) Managed)) = None \<and>
   condition_set (Available 5) (object (Observe (with_iam_helper
     (mock_external (Inr [policy ''arn:b'' ''Other'', policy ''arn:a'' ''ReadOnly''])
        None None (Some errBoom) late_keep)) 5
     (Attachment (attachment ''arn:a'' ''user'') :: (string option, string) Managed))) \<and>
   ResourceExists (result (Observe (with_iam_helper
     (mock_external (Inr [policy ''arn:b'' ''Other'', policy ''arn:a'' ''ReadOnly''])
        None None (Some errBoom) late_keep)) 5
     (Attachment (attachment ''arn:a'' ''user'') :: (string option, string) Managed))) \<and>
   ResourceUpToDate (result (Observe (with_iam_helper
     (mock_external (Inr [policy ''arn:b'' ''Other'', policy ''arn:a'' ''ReadOnly''])
        None None (Some errBoom) late_keep)) 5
     (Attachment (attachment ''arn:a'' ''user'') :: (string option, string) Managed)))"
proof -
  let ?ps = "[policy ''arn:b'' ''Other'', policy ''arn:a'' ''ReadOnly'']"
  let ?e = "mock_external (Inr ?ps) None None (Some errBoom) late_keep"
  let ?cr = "attachment ''arn:a'' ''user''"
  have l: "client_ListAttachedUserPolicies ?e (Some (UserName (ForProvider (Spec ?cr)))) = Inr ?ps"
    by (simp add: mock_external_def)
  have f: "find_attached (PolicyARN (ForProvider (Spec ?cr))) ?ps
     = Some (policy ''arn:a'' ''ReadOnly'')"
    by (simp add: attachment_def policy_def)
  from Observe_found_available[where ?'o = string, of ?e ?cr ?ps "policy ''arn:a'' ''ReadOnly''" 5]
    l f
  have "err (Observe (with_iam_helper ?e) 5
        (Attachment ?cr :: (string option, string) Managed)) = None \<and>
    condition_set (Available 5) (object (Observe (with_iam_helper ?e) 5
        (Attachment ?cr :: (string option, string) Managed))) \<and>
    ResourceExists (result (Observe (with_iam_helper ?e) 5
        (Attachment ?cr :: (string option, string) Managed))) \<and>
    ResourceUpToDate (result (Observe (with_iam_helper ?e) 5
        (Attachment ?cr :: (string option, string) Managed)))"
    by blast
  moreover have "client_ListAttachedUserPolicies ?e (Some ''user'') = Inr ?ps"
    by (simp add: mock_external_def)
  moreover from f have "find_attached ''arn:a'' ?ps = Some (policy ''arn:a'' ''ReadOnly'')"
    by (simp add: attachment_def)
  ultimately show ?thesis by blast
qed

text \<open>
  C4. \<^verbatim>\<open>Create\<close> leaves the object with the \<^verbatim>\<open>Creating\<close> condition set, whatever the
  provider answers; the object already had it when the one request, the attach request,
  was sent; and the error is the wrapped answer of that request.
\<close>

theorem Create_sets_Creating:
  "object (Create e now (Attachment cr :: ('m, 'o) Managed)) = Attachment (cr_SetConditions [Creating now] cr) \<and>
   condition_set (Creating now) (object (Create e now (Attachment cr))) \<and>
   calls (Create e now (Attachment cr)) =
     [(AttachUserPolicyRequest (Some (PolicyARN (ForProvider (Spec cr))))
         (Some (UserName (ForProvider (Spec cr)))),
       cr_SetConditions [Creating now] cr)] \<and>
   err (Create e now (Attachment cr)) =
     awsclient_Wrap (client_AttachUserPolicy e (Some (PolicyARN (ForProvider (Spec cr))))
         (Some (UserName (ForProvider (Spec cr))))) errAttach"
proof -
  have "condition_set (Creating now) (Attachment (cr_SetConditions [Creating now] cr))"
    by (rule condition_set_cr_SetConditions)
  then show ?thesis
    by (simp add: Create_def Let_def aws_String_def cr_SetConditions_def)
qed

text \<open>C4 at a provider that fails and at one that succeeds.\<close>

theorem Create_sets_Creating_witness:
  "condition_set (Creating 5)
     (object (Create (mock_external (Inr []) (Some errBoom) None None late_keep) 5
        (Attachment (attachment ''arn:a'' ''user'') :: (string option, string) Managed))) \<and>
   err (Create (mock_external (Inr []) (Some errBoom) None None late_keep) 5
        (Attachment (attachment ''arn:a'' ''user'') :: (string option, string) Managed))
     = Some (errors_Wrap errBoom errAttach) \<and>
   condition_set (Creating 5)
     (object (Create (mock_external (Inr []) None None None late_keep) 5
        (Attachment (attachment ''arn:a'' ''user'') :: (string option, string) Managed))) \<and>
   err (Create (mock_external (Inr []) None None None late_keep) 5
        (Attachment (attachment ''arn:a'' ''user'') :: (string option, string) Managed))
     = None"
  using Create_sets_Creating [where ?'o = string, of "mock_external (Inr []) (Some errBoom) None None late_keep" 5
      "attachment ''arn:a'' ''user''"]
    Create_sets_Creating [where ?'o = string, of "mock_external (Inr []) None None None late_keep" 5
      "attachment ''arn:a'' ''user''"]
  by (auto simp: mock_external_def)

text \<open>
  C5. \<^verbatim>\<open>Delete\<close> leaves the object with the \<^verbatim>\<open>Deleting\<close> condition set, whatever the
  provider answers; the object already had it when the one request, the detach request,
  was sent; and a not-found answer gives no error.
\<close>

theorem Delete_sets_Deleting:
  "object (Delete e now (Attachment cr :: ('m, 'o) Managed)) = Attachment (cr_SetConditions [Deleting now] cr) \<and>
   condition_set (Deleting now) (object (Delete e now (Attachment cr))) \<and>
   calls (Delete e now (Attachment cr)) =
     [(DetachUserPolicyRequest (Some (PolicyARN (ForProvider (Spec cr))))
         (Some (UserName (ForProvider (Spec cr)))),
       cr_SetConditions [Deleting now] cr)] \<and>
   (\<forall>er. client_DetachUserPolicy e (Some (PolicyARN (ForProvider (Spec cr))))
            (Some (UserName (ForProvider (Spec cr)))) = Some er \<and> IsErrorNotFound e er \<longrightarrow>
         err (Delete e now (Attachment cr)) = None)"
proof -
  have "condition_set (Deleting now) (Attachment (cr_SetConditions [Deleting now] cr))"
    by (rule condition_set_cr_SetConditions)
  then show ?thesis
    by (simp add: Delete_def Let_def aws_String_def cr_SetConditions_def)
qed

text \<open>C5 at a provider that answers not found.\<close>

theorem Delete_sets_Deleting_witness:
  "client_DetachUserPolicy
     (mock_external (Inr []) None (Some ErrCodeNoSuchEntityException) None late_keep)
     (Some ''arn:a'') (Some ''user'') = Some ErrCodeNoSuchEntityException \<and>
   IsErrorNotFound
     (mock_external (Inr []) None (Some ErrCodeNoSuchEntityException) None late_keep)
     ErrCodeNoSuchEntityException \<and>
   err (Delete (mock_external (Inr []) None (Some ErrCodeNoSuchEntityException) None late_keep) 5
        (Attachment (attachment ''arn:a'' ''user'') :: (string option, string) Managed))
     = None \<and>
   condition_set (Deleting 5)
     (object (Delete
        (mock_external (Inr []) None (Some ErrCodeNoSuchEntityException) None late_keep) 5
        (Attachment (attachment ''arn:a'' ''user'') :: (string option, string) Managed)))"
  using Delete_sets_Deleting
    [where ?'o = string, of "mock_external (Inr []) None (Some ErrCodeNoSuchEntityException) None late_keep" 5
      "attachment ''arn:a'' ''user''"]
  by (auto simp: mock_external_def attachment_def)

text \<open>
  C6. \<^verbatim>\<open>Update\<close> returns the empty result and no error for every object, sends no
  request and leaves the object as it was.
\<close>

theorem Update_no_op:
  "result (Update e mgd) = ExternalUpdate_zero \<and> err (Update e mgd) = None \<and>
   calls (Update e mgd) = [] \<and> object (Update e mgd) = mgd"
  by (simp add: Update_def)

text \<open>C6 at an attachment.\<close>

theorem Update_no_op_witness:
  "result (Update (mock_external (Inr []) None None None late_keep)
      (Attachment (attachment ''arn:a'' ''user'') :: (string option, string) Managed))
     = ExternalUpdate_zero \<and>
   err (Update (mock_external (Inr []) None None None late_keep)
      (Attachment (attachment ''arn:a'' ''user'') :: (string option, string) Managed)) = None \<and>
   calls (Update (mock_external (Inr []) None None None late_keep)
      (Attachment (attachment ''arn:a'' ''user'') :: (string option, string) Managed)) = [] \<and>
   object (Update (mock_external (Inr []) None None None late_keep)
      (Attachment (attachment ''arn:a'' ''user'') :: (string option, string) Managed))
     = Attachment (attachment ''arn:a'' ''user'')"
  using Update_no_op [of "mock_external (Inr []) None None None late_keep"
      "Attachment (attachment ''arn:a'' ''user'')"]
  by simp

text \<open>
  C7. When \<^verbatim>\<open>Observe\<close> finds the policy, it writes the object to the store if and only
  if the late initialisation changed the parameters; the object written is the
  late-initialised one, after the list request and nothing else; and if the store
  refuses the update, the error returned is that refusal wrapped with the
  late-initialisation message.
\<close>

theorem Observe_late_initialization:
  assumes "client_ListAttachedUserPolicies e (Some (UserName (ForProvider (Spec cr)))) = Inr ps"
    and "find_attached (PolicyARN (ForProvider (Spec cr))) ps = Some p"
  shows "(store_written (Observe e now (Attachment cr :: ('m, 'o) Managed)) \<longleftrightarrow>
       LateInitializeUserPolicy e (ForProvider (Spec cr)) p \<noteq> ForProvider (Spec cr)) \<and>
    calls (Observe e now (Attachment cr :: ('m, 'o) Managed)) =
      (ListAttachedUserPoliciesRequest (Some (UserName (ForProvider (Spec cr)))), cr) #
      (if LateInitializeUserPolicy e (ForProvider (Spec cr)) p \<noteq> ForProvider (Spec cr)
       then [(kube_Update_call (late_initialized e p cr), late_initialized e p cr)] else []) \<and>
    (\<forall>er. LateInitializeUserPolicy e (ForProvider (Spec cr)) p \<noteq> ForProvider (Spec cr) \<and>
          fst (kube_Update e (late_initialized e p cr)) = Some er \<longrightarrow>
       err (Observe e now (Attachment cr :: ('m, 'o) Managed))
         = Some (errors_Wrap er errKubeUpdateFailed))"
proof -
  let ?sent = "[(ListAttachedUserPoliciesRequest (Some (UserName (ForProvider (Spec cr)))), cr)]"
  let ?out = "Observe e now (Attachment cr :: ('m, 'o) Managed)"
  have o: "?out = Observe_found e now p cr ?sent"
    using assms by (rule Observe_listed)
  show ?thesis
  proof (cases "LateInitializeUserPolicy e (ForProvider (Spec cr)) p = ForProvider (Spec cr)")
    case True
    then have "?out = Observe_available now p cr ?sent"
      by (simp add: o Observe_found_unchanged)
    with True show ?thesis
      by (simp add: store_written_def Observe_available_calls)
  next
    case False
    obtain r cr2 where k: "kube_Update e (late_initialized e p cr) = (r, cr2)"
      by (cases "kube_Update e (late_initialized e p cr)")
    show ?thesis
    proof (cases r)
      case None
      with False k have "?out = Observe_available now p cr2
          (?sent @ [(kube_Update_call (late_initialized e p cr), late_initialized e p cr)])"
        by (simp add: o Observe_found_stored)
      with False k None show ?thesis
        by (simp add: store_written_def Observe_available_calls)
    next
      case (Some er)
      with False k have "?out =
        \<lparr>result = ExternalObservation_zero, err = Some (errors_Wrap er errKubeUpdateFailed),
         object = Attachment cr2,
         calls = ?sent @ [(kube_Update_call (late_initialized e p cr), late_initialized e p cr)]\<rparr>"
        by (simp add: o Observe_found_store_failed)
      with False k Some show ?thesis
        by (simp add: store_written_def)
    qed
  qed
qed

text \<open>
  C7 at a helper that fills an unset parameter (the store is written, and refuses) and
  at one that changes nothing (the store is not written).
\<close>

theorem Observe_late_initialization_witness:
  "client_ListAttachedUserPolicies
     (mock_external (Inr [policy ''arn:a'' ''ReadOnly'']) None None (Some errBoom) late_fill)
     (Some ''user'') = Inr [policy ''arn:a'' ''ReadOnly''] \<and>
   find_attached ''arn:a'' [policy ''arn:a'' ''ReadOnly''] = Some (policy ''arn:a'' ''ReadOnly'') \<and>
   late_fill (ForProvider (Spec (attachment ''arn:a'' ''user''))) (policy ''arn:a'' ''ReadOnly'')
     \<noteq> ForProvider (Spec (attachment ''arn:a'' ''user'')) \<and>
   store_written (Observe
     (mock_external (Inr [policy ''arn:a'' ''ReadOnly'']) None None (Some errBoom) late_fill) 5
     (Attachment (attachment ''arn:a'' ''user'') :: (string option, string) Managed)) \<and>
   err (Observe
     (mock_external (Inr [policy ''arn:a'' ''ReadOnly'']) None None (Some errBoom) late_fill) 5
     (Attachment (attachment ''arn:a'' ''user'') :: (string option, string) Managed))
     = Some (errors_Wrap errBoom errKubeUpdateFailed) \<and>
   late_keep (ForProvider (Spec (attachment ''arn:a'' ''user''))) (policy ''arn:a'' ''ReadOnly'')
     = ForProvider (Spec (attachment ''arn:a'' ''user'')) \<and>
   \<not> store_written (Observe
     (mock_external (Inr [policy ''arn:a'' ''ReadOnly'']) None None (Some errBoom) late_keep) 5
     (Attachment (attachment ''arn:a'' ''user'') :: (string option, string) Managed))"
proof -
  let ?ps = "[policy ''arn:a'' ''ReadOnly'']"
  let ?e = "mock_external (Inr ?ps) None None (Some errBoom) late_fill"
  let ?k = "mock_external (Inr ?ps) None None (Some errBoom) late_keep"
  let ?cr = "attachment ''arn:a'' ''user''"
  have l: "client_ListAttachedUserPolicies ?e (Some (UserName (ForProvider (Spec ?cr)))) = Inr ?ps"
    and lk: "client_ListAttachedUserPolicies ?k (Some (UserName (ForProvider (Spec ?cr)))) = Inr ?ps"
    by (simp_all add: mock_external_def)
  have f: "find_attached (PolicyARN (ForProvider (Spec ?cr))) ?ps
     = Some (policy ''arn:a'' ''ReadOnly'')"
    by (simp add: attachment_def policy_def)
  have c: "LateInitializeUserPolicy ?e (ForProvider (Spec ?cr)) (policy ''arn:a'' ''ReadOnly'')
      \<noteq> ForProvider (Spec ?cr)"
    by (simp add: mock_external_def late_fill_def attachment_def policy_def)
  have u: "fst (kube_Update ?e (late_initialized ?e (policy ''arn:a'' ''ReadOnly'') ?cr))
      = Some errBoom"
    by (simp add: mock_external_def)
  have ck: "LateInitializeUserPolicy ?k (ForProvider (Spec ?cr)) (policy ''arn:a'' ''ReadOnly'')
      = ForProvider (Spec ?cr)"
    by (simp add: mock_external_def late_keep_def)
  note t = Observe_late_initialization[where ?'o = string, OF l f, of 5]
    and tk = Observe_late_initialization[where ?'o = string, OF lk f, of 5]
  from t c u have
    "store_written (Observe ?e 5 (Attachment ?cr :: (string option, string) Managed))"
    "err (Observe ?e 5 (Attachment ?cr :: (string option, string) Managed))
       = Some (errors_Wrap errBoom errKubeUpdateFailed)"
    by blast+
  moreover from tk ck have
    "\<not> store_written (Observe ?k 5 (Attachment ?cr :: (string option, string) Managed))"
    by blast
  moreover have "client_ListAttachedUserPolicies ?e (Some ''user'') = Inr ?ps"
    by (simp add: mock_external_def)
  moreover have "find_attached ''arn:a'' ?ps = Some (policy ''arn:a'' ''ReadOnly'')"
    by (simp add: policy_def)
  moreover have "late_fill (ForProvider (Spec ?cr)) (policy ''arn:a'' ''ReadOnly'')
     \<noteq> ForProvider (Spec ?cr)"
    by (simp add: late_fill_def attachment_def policy_def)
  moreover have "late_keep (ForProvider (Spec ?cr)) (policy ''arn:a'' ''ReadOnly'')
     = ForProvider (Spec ?cr)"
    by (simp add: late_keep_def)
  ultimately show ?thesis by blast
qed

text \<open>
  C8. An error of the list request comes back wrapped with \<open>errGet\<close>, one of the attach
  request with \<open>errAttach\<close>, one of the detach request with \<open>errDetach\<close>, the cause
  kept; the only provider errors that give no error are the not-found ones of the list
  and detach requests.
\<close>

theorem provider_errors_wrapped:
  "(client_ListAttachedUserPolicies e (Some (UserName (ForProvider (Spec cr)))) = Inl er \<longrightarrow>
      err (Observe e now (Attachment cr :: ('m, 'o) Managed)) =
        (if IsErrorNotFound e er then None else Some (errors_Wrap er errGet))) \<and>
   (client_AttachUserPolicy e (Some (PolicyARN (ForProvider (Spec cr))))
        (Some (UserName (ForProvider (Spec cr)))) = Some er \<longrightarrow>
      err (Create e now (Attachment cr :: ('m, 'o) Managed)) = Some (errors_Wrap er errAttach)) \<and>
   (client_DetachUserPolicy e (Some (PolicyARN (ForProvider (Spec cr))))
        (Some (UserName (ForProvider (Spec cr)))) = Some er \<longrightarrow>
      err (Delete e now (Attachment cr :: ('m, 'o) Managed)) =
        (if IsErrorNotFound e er then None else Some (errors_Wrap er errDetach)))"
proof (intro conjI impI)
  assume "client_ListAttachedUserPolicies e (Some (UserName (ForProvider (Spec cr)))) = Inl er"
  then show "err (Observe e now (Attachment cr :: ('m, 'o) Managed)) =
        (if IsErrorNotFound e er then None else Some (errors_Wrap er errGet))"
    by (simp add: Observe_failed)
next
  assume "client_AttachUserPolicy e (Some (PolicyARN (ForProvider (Spec cr))))
        (Some (UserName (ForProvider (Spec cr)))) = Some er"
  then show "err (Create e now (Attachment cr :: ('m, 'o) Managed))
      = Some (errors_Wrap er errAttach)"
    by (simp add: Create_def Let_def aws_String_def cr_SetConditions_def)
next
  assume "client_DetachUserPolicy e (Some (PolicyARN (ForProvider (Spec cr))))
        (Some (UserName (ForProvider (Spec cr)))) = Some er"
  then show "err (Delete e now (Attachment cr :: ('m, 'o) Managed)) =
        (if IsErrorNotFound e er then None else Some (errors_Wrap er errDetach))"
    by (simp add: Delete_def Let_def aws_String_def cr_SetConditions_def)
qed

text \<open>C8 at a provider whose every request fails with an error that is not not-found.\<close>

theorem provider_errors_wrapped_witness:
  "client_ListAttachedUserPolicies
     (mock_external (Inl errBoom) (Some errBoom) (Some errBoom) None late_keep)
     (Some ''user'') = Inl errBoom \<and>
   \<not> IsErrorNotFound
     (mock_external (Inl errBoom) (Some errBoom) (Some errBoom) None late_keep) errBoom \<and>
   err (Observe (mock_external (Inl errBoom) (Some errBoom) (Some errBoom) None late_keep) 5
     (Attachment (attachment ''arn:a'' ''user'') :: (string option, string) Managed))
     = Some (errors_Wrap errBoom errGet) \<and>
   err (Create (mock_external (Inl errBoom) (Some errBoom) (Some errBoom) None late_keep) 5
     (Attachment (attachment ''arn:a'' ''user'') :: (string option, string) Managed))
     = Some (errors_Wrap errBoom errAttach) \<and>
   err (Delete (mock_external (Inl errBoom) (Some errBoom) (Some errBoom) None late_keep) 5
     (Attachment (attachment ''arn:a'' ''user'') :: (string option, string) Managed))
     = Some (errors_Wrap errBoom errDetach)"
  using provider_errors_wrapped [where ?'o = string,
      of "mock_external (Inl errBoom) (Some errBoom) (Some errBoom) None late_keep"
      "attachment ''arn:a'' ''user''" errBoom 5]
  by (auto simp: mock_external_def attachment_def errBoom_def ErrCodeNoSuchEntityException_def)

text \<open>
  C9. When the list request succeeds, \<^verbatim>\<open>Observe\<close>, with the repository's
  late-initialisation helper, returns no error and reports that the resource exists if and
  only if some attached policy carries the desired ARN; then the status records the ARN of
  the first such policy.
\<close>

theorem Observe_exists_iff_attached:
  "client_ListAttachedUserPolicies e (Some (UserName (ForProvider (Spec cr)))) = Inr ps \<longrightarrow>
     err (Observe (with_iam_helper e) now (Attachment cr :: ('m, 'o) Managed)) = None \<and>
     (ResourceExists (result (Observe (with_iam_helper e) now (Attachment cr :: ('m, 'o) Managed)))
        \<longleftrightarrow>
      (\<exists>p \<in> set ps. aws_StringValue (PolicyArn p) = PolicyARN (ForProvider (Spec cr)))) \<and>
     (ResourceExists (result (Observe (with_iam_helper e) now (Attachment cr :: ('m, 'o) Managed)))
        \<longrightarrow>
      (\<exists>cr' pre p post.
          object (Observe (with_iam_helper e) now (Attachment cr :: ('m, 'o) Managed))
            = Attachment cr' \<and>
          ps = pre @ p # post \<and>
          (\<forall>q \<in> set pre. aws_StringValue (PolicyArn q) \<noteq> PolicyARN (ForProvider (Spec cr))) \<and>
          aws_StringValue (PolicyArn p) = PolicyARN (ForProvider (Spec cr)) \<and>
          AttachedPolicyARN (AtProvider (Status cr')) = aws_StringValue (PolicyArn p)))"
proof
  assume l: "client_ListAttachedUserPolicies e (Some (UserName (ForProvider (Spec cr)))) = Inr ps"
  let ?out = "Observe (with_iam_helper e) now (Attachment cr :: ('m, 'o) Managed)"
  let ?G = "err ?out = None \<and>
     (ResourceExists (result ?out) \<longleftrightarrow>
      (\<exists>p \<in> set ps. aws_StringValue (PolicyArn p) = PolicyARN (ForProvider (Spec cr)))) \<and>
     (ResourceExists (result ?out) \<longrightarrow>
      (\<exists>cr' pre p post.
          object ?out = Attachment cr' \<and>
          ps = pre @ p # post \<and>
          (\<forall>q \<in> set pre. aws_StringValue (PolicyArn q) \<noteq> PolicyARN (ForProvider (Spec cr))) \<and>
          aws_StringValue (PolicyArn p) = PolicyARN (ForProvider (Spec cr)) \<and>
          AttachedPolicyARN (AtProvider (Status cr')) = aws_StringValue (PolicyArn p)))"
  from l have l': "client_ListAttachedUserPolicies (with_iam_helper e)
      (Some (UserName (ForProvider (Spec cr)))) = Inr ps"
    by (simp add: with_iam_helper_def)
  show ?G
  proof (cases "find_attached (PolicyARN (ForProvider (Spec cr))) ps")
    case None
    then have "\<not> (\<exists>p \<in> set ps. aws_StringValue (PolicyArn p) = PolicyARN (ForProvider (Spec cr)))"
      by (simp add: find_attached_None)
    moreover have "\<not> ResourceExists (result ?out)" "err ?out = None"
      by (simp_all add: Observe_missing[OF l' None])
    ultimately show ?thesis by blast
  next
    case (Some p)
    note a = Observe_iam_found[OF l Some, of now]
    from find_attached_Some[OF Some] obtain pre post where
      s: "ps = pre @ p # post" "aws_StringValue (PolicyArn p) = PolicyARN (ForProvider (Spec cr))"
        "\<forall>q \<in> set pre. aws_StringValue (PolicyArn q) \<noteq> PolicyARN (ForProvider (Spec cr))"
      by blast
    from Observe_available_object[of now p cr] a obtain cr' where
      c: "object ?out = Attachment cr'"
        "AttachedPolicyARN (AtProvider (Status cr')) = aws_StringValue (PolicyArn p)"
      by metis
    have x: "ResourceExists (result ?out)"
      by (simp add: a Observe_available_result)
    have n: "err ?out = None"
      by (simp add: a Observe_available_def Let_def)
    from s(1) have "p \<in> set ps" by simp
    with s(2) have m: "\<exists>p \<in> set ps. aws_StringValue (PolicyArn p) = PolicyARN (ForProvider (Spec cr))"
      by blast
    from c s have "\<exists>cr' pre p post. object ?out = Attachment cr' \<and> ps = pre @ p # post \<and>
          (\<forall>q \<in> set pre. aws_StringValue (PolicyArn q) \<noteq> PolicyARN (ForProvider (Spec cr))) \<and>
          aws_StringValue (PolicyArn p) = PolicyARN (ForProvider (Spec cr)) \<and>
          AttachedPolicyARN (AtProvider (Status cr')) = aws_StringValue (PolicyArn p)"
      by blast
    with x m n show ?thesis by blast
  qed
qed

text \<open>
  C9 where the second attached policy is the desired one, and where none is, with a store
  that would refuse an update.
\<close>

theorem Observe_exists_iff_attached_witness:
  "client_ListAttachedUserPolicies
     (mock_external (Inr [policy ''arn:b'' ''Other'', policy ''arn:c'' ''ReadOnly''])
        None None (Some errBoom) late_keep) (Some ''bob'')
     = Inr [policy ''arn:b'' ''Other'', policy ''arn:c'' ''ReadOnly''] \<and>
   policy ''arn:c'' ''ReadOnly'' \<in> set [policy ''arn:b'' ''Other'', policy ''arn:c'' ''ReadOnly''] \<and>
   aws_StringValue (PolicyArn (policy ''arn:c'' ''ReadOnly'')) = ''arn:c'' \<and>
   ResourceExists (result (Observe (with_iam_helper
     (mock_external (Inr [policy ''arn:b'' ''Other'', policy ''arn:c'' ''ReadOnly''])
        None None (Some errBoom) late_keep)) 7
     (Attachment (attachment ''arn:c'' ''bob'') :: (string option, string) Managed))) \<and>
   err (Observe (with_iam_helper
     (mock_external (Inr [policy ''arn:b'' ''Other'', policy ''arn:c'' ''ReadOnly''])
        None None (Some errBoom) late_keep)) 7
     (Attachment (attachment ''arn:c'' ''bob'') :: (string option, string) Managed)) = None \<and>
   \<not> ResourceExists (result (Observe (with_iam_helper
     (mock_external (Inr [policy ''arn:b'' ''Other'', policy ''arn:c'' ''ReadOnly''])
        None None (Some errBoom) late_keep)) 7
     (Attachment (attachment ''arn:d'' ''bob'') :: (string option, string) Managed)))"
proof -
  let ?ps = "[policy ''arn:b'' ''Other'', policy ''arn:c'' ''ReadOnly'']"
  let ?e = "mock_external (Inr ?ps) None None (Some errBoom) late_keep"
  let ?cr = "attachment ''arn:c'' ''bob''"
  let ?dr = "attachment ''arn:d'' ''bob''"
  have l: "client_ListAttachedUserPolicies ?e (Some (UserName (ForProvider (Spec ?cr)))) = Inr ?ps"
    and ld: "client_ListAttachedUserPolicies ?e (Some (UserName (ForProvider (Spec ?dr)))) = Inr ?ps"
    by (simp_all add: mock_external_def)
  have m: "\<exists>p \<in> set ?ps. aws_StringValue (PolicyArn p) = PolicyARN (ForProvider (Spec ?cr))"
    by (simp add: policy_def attachment_def)
  have nm: "\<not> (\<exists>p \<in> set ?ps. aws_StringValue (PolicyArn p) = PolicyARN (ForProvider (Spec ?dr)))"
    by (simp add: policy_def attachment_def)
  from Observe_exists_iff_attached[where ?'o = string, of ?e ?cr ?ps 7] l m
  have "ResourceExists (result (Observe (with_iam_helper ?e) 7
        (Attachment ?cr :: (string option, string) Managed))) \<and>
    err (Observe (with_iam_helper ?e) 7
        (Attachment ?cr :: (string option, string) Managed)) = None"
    by blast
  moreover
  from Observe_exists_iff_attached[where ?'o = string, of ?e ?dr ?ps 7] ld nm
  have "\<not> ResourceExists (result (Observe (with_iam_helper ?e) 7
        (Attachment ?dr :: (string option, string) Managed)))"
    by blast
  moreover have "client_ListAttachedUserPolicies ?e (Some ''bob'') = Inr ?ps"
    by (simp add: mock_external_def)
  moreover have "policy ''arn:c'' ''ReadOnly'' \<in> set ?ps"
    "aws_StringValue (PolicyArn (policy ''arn:c'' ''ReadOnly'')) = ''arn:c''"
    by (simp_all add: policy_def)
  ultimately show ?thesis by blast
qed

section \<open>Properties of the deep copy\<close>

subsection \<open>Cells and growing heaps\<close>

lemma lookup_Some_iff: "lookup xs a = Some v \<longleftrightarrow> a < length xs \<and> xs ! a = v"
  by (auto simp: lookup_def)

lemma take_length_le:
  assumes "take (length xs) ys = xs"
  shows "length xs \<le> length ys"
proof -
  from assms have "length (take (length xs) ys) = length xs" by simp
  then show ?thesis by simp
qed

lemma lookup_take:
  assumes "take (length xs) ys = xs" and "lookup xs a = Some v"
  shows "lookup ys a = Some v"
proof -
  from assms(2) have a: "a < length xs" and v: "xs ! a = v"
    by (simp_all add: lookup_Some_iff)
  from assms(1) have "length xs \<le> length ys" by (rule take_length_le)
  moreover from a have "take (length xs) ys ! a = ys ! a" by simp
  with assms(1) have "ys ! a = xs ! a" by simp
  ultimately show ?thesis using a v by (simp add: lookup_Some_iff)
qed

lemma take_trans:
  assumes "take (length xs) ys = xs" and "take (length ys) zs = ys"
  shows "take (length xs) zs = xs"
proof -
  from assms(1) have "length xs \<le> length ys" by (rule take_length_le)
  then have "take (length xs) zs = take (length xs) (take (length ys) zs)"
    by (simp add: min_def)
  with assms show ?thesis by simp
qed

lemma grows_refl: "grows h h"
  by (simp add: grows_def)

lemma grows_trans: "grows h g \<Longrightarrow> grows g k \<Longrightarrow> grows h k"
  unfolding grows_def by (blast intro: take_trans)

lemma pointee_Some: "pointee val (Some a) = map_option Some (val a)"
  by (simp add: pointee_def)

lemma pointee_mono:
  assumes "\<And>a v. val a = Some v \<Longrightarrow> val' a = Some v" and "pointee val p = Some x"
  shows "pointee val' p = Some x"
  using assms by (cases p) (auto simp: pointee_def)

lemma leaf_grows:
  assumes "grows h g" and "pointee (lookup (leaves h)) p = Some x"
  shows "pointee (lookup (leaves g)) p = Some x"
proof -
  from assms(1) have t: "take (length (leaves h)) (leaves g) = leaves h"
    by (simp add: grows_def)
  from assms(2) show ?thesis
    by (rule pointee_mono[rotated]) (rule lookup_take[OF t])
qed

lemma value_Selector_Some:
  "value_Selector h a = Some v \<longleftrightarrow>
   (\<exists>s l c. lookup (selectors h) a = Some s \<and>
      pointee (lookup (leaves h)) (MatchLabels s) = Some l \<and>
      pointee (lookup (leaves h)) (MatchControllerRef s) = Some c \<and> v = Selector_value l c)"
  by (auto simp: value_Selector_def split: bind_splits)

lemma value_SecretSelector_Some:
  "value_SecretSelector h a = Some v \<longleftrightarrow>
   (\<exists>s r. lookup (secretSelectors h) a = Some s \<and>
      pointee (lookup (leaves h)) (SecretReference s) = Some r \<and>
      v = SecretSelector_value r (Key s))"
  by (auto simp: value_SecretSelector_def split: bind_splits)

lemma slice_value_Some:
  "slice_value h sl = Some ts \<longleftrightarrow>
   (\<exists>xs. lookup (tagArrays h) (arr sl) = Some xs \<and> off sl + len sl \<le> length xs \<and>
      ts = take (len sl) (drop (off sl) xs))"
  by (auto simp: slice_value_def split: bind_splits)

lemma value_Selector_grows:
  assumes g: "grows h g" and v: "value_Selector h a = Some v"
  shows "value_Selector g a = Some v"
proof -
  from v obtain s l c where s: "lookup (selectors h) a = Some s"
    and l: "pointee (lookup (leaves h)) (MatchLabels s) = Some l"
    and c: "pointee (lookup (leaves h)) (MatchControllerRef s) = Some c"
    and vv: "v = Selector_value l c"
    by (auto simp: value_Selector_Some)
  from g have "take (length (selectors h)) (selectors g) = selectors h"
    by (simp add: grows_def)
  from lookup_take[OF this s] leaf_grows[OF g l] leaf_grows[OF g c] vv
  show ?thesis by (auto simp: value_Selector_Some)
qed

lemma value_SecretSelector_grows:
  assumes g: "grows h g" and v: "value_SecretSelector h a = Some v"
  shows "value_SecretSelector g a = Some v"
proof -
  from v obtain s r where s: "lookup (secretSelectors h) a = Some s"
    and r: "pointee (lookup (leaves h)) (SecretReference s) = Some r"
    and vv: "v = SecretSelector_value r (Key s)"
    by (auto simp: value_SecretSelector_Some)
  from g have "take (length (secretSelectors h)) (secretSelectors g) = secretSelectors h"
    by (simp add: grows_def)
  from lookup_take[OF this s] leaf_grows[OF g r] vv
  show ?thesis by (auto simp: value_SecretSelector_Some)
qed

lemma slice_value_grows:
  assumes g: "grows h g" and v: "slice_value h sl = Some ts"
  shows "slice_value g sl = Some ts"
proof -
  from v obtain xs where x: "lookup (tagArrays h) (arr sl) = Some xs"
    and b: "off sl + len sl \<le> length xs" and t: "ts = take (len sl) (drop (off sl) xs)"
    by (auto simp: slice_value_Some)
  from g have "take (length (tagArrays h)) (tagArrays g) = tagArrays h"
    by (simp add: grows_def)
  from lookup_take[OF this x] b t show ?thesis by (auto simp: slice_value_Some)
qed

lemma Selector_grows:
  "grows h g \<Longrightarrow> pointee (value_Selector h) p = Some x \<Longrightarrow> pointee (value_Selector g) p = Some x"
  by (erule pointee_mono[rotated]) (rule value_Selector_grows)

lemma SecretSelector_grows:
  "grows h g \<Longrightarrow> pointee (value_SecretSelector h) p = Some x \<Longrightarrow>
   pointee (value_SecretSelector g) p = Some x"
  by (erule pointee_mono[rotated]) (rule value_SecretSelector_grows)

lemma slice_grows:
  "grows h g \<Longrightarrow> pointee (slice_value h) p = Some x \<Longrightarrow> pointee (slice_value g) p = Some x"
  by (erule pointee_mono[rotated]) (rule slice_value_grows)

subsection \<open>The steps of the copy\<close>

lemma copy_leaf_field_step:
  assumes i: "lookup (secretParameters h) i = Some s"
    and out: "lookup (secretParameters h) out = Some t"
    and ne: "i \<noteq> out"
    and y: "pointee (lookup (leaves h)) (field s) = Some y"
    and todo: "field t = field s"
    and same: "upd (\<lambda>_. field t) t = t"
  shows "\<exists>h' x. copy_leaf_field field upd zero i out h = Some h' \<and>
     grows h h' \<and>
     secretParameters h' = (secretParameters h)[out := upd (\<lambda>_. x) t] \<and>
     pointee (lookup (leaves h')) x = Some y \<and>
     (\<forall>a. x = Some a \<longrightarrow> length (leaves h) \<le> a)"
proof (cases "field s")
  case None
  with i have "copy_leaf_field field upd zero i out h = Some h"
    by (simp add: copy_leaf_field_def)
  moreover from out have "(secretParameters h)[out := t] = secretParameters h"
    by (auto simp: lookup_Some_iff)
  with None todo same
  have "secretParameters h = (secretParameters h)[out := upd (\<lambda>_. None) t]"
    by simp
  moreover from None y have "pointee (lookup (leaves h)) None = Some y" by simp
  ultimately show ?thesis using grows_refl by force
next
  case (Some p)
  with y obtain v where v: "lookup (leaves h) p = Some v" and yv: "y = Some v"
    by (auto simp: pointee_Some)
  let ?a = "length (leaves h)"
  let ?h' = "h\<lparr>leaves := leaves h @ [v],
     secretParameters := (secretParameters h)[out := upd (\<lambda>_. Some ?a) t]\<rparr>"
  from i out v have
    "i < length (secretParameters h)" "secretParameters h ! i = s"
    "out < length (secretParameters h)" "secretParameters h ! out = t"
    "p < length (leaves h)" "leaves h ! p = v"
    by (simp_all add: lookup_Some_iff)
  with ne Some have "copy_leaf_field field upd zero i out h = Some ?h'"
    by (simp add: copy_leaf_field_def lookup_def nth_append Let_def)
  moreover have "pointee (lookup (leaves ?h')) (Some ?a) = Some y"
    by (simp add: pointee_Some lookup_def yv)
  moreover have "grows h ?h'"
    by (simp add: grows_def)
  ultimately show ?thesis by force
qed

lemma Selector_copy_leaf_step:
  assumes i: "lookup (selectors h) i = Some s"
    and out: "lookup (selectors h) out = Some t"
    and ne: "i \<noteq> out"
    and y: "pointee (lookup (leaves h)) (field s) = Some y"
    and todo: "field t = field s"
    and same: "upd (\<lambda>_. field t) t = t"
  shows "\<exists>h' x. Selector_copy_leaf field upd zero i out h = Some h' \<and>
     h' = h\<lparr>leaves := leaves h', selectors := (selectors h)[out := upd (\<lambda>_. x) t]\<rparr> \<and>
     take (length (leaves h)) (leaves h') = leaves h \<and>
     pointee (lookup (leaves h')) x = Some y \<and>
     (\<forall>a. x = Some a \<longrightarrow> length (leaves h) \<le> a)"
proof (cases "field s")
  case None
  with i have "Selector_copy_leaf field upd zero i out h = Some h"
    by (simp add: Selector_copy_leaf_def)
  moreover from out have "(selectors h)[out := t] = selectors h"
    by (auto simp: lookup_Some_iff)
  with None todo same
  have "h = h\<lparr>leaves := leaves h, selectors := (selectors h)[out := upd (\<lambda>_. None) t]\<rparr>"
    by simp
  moreover from None y have "pointee (lookup (leaves h)) None = Some y" by simp
  ultimately show ?thesis by force
next
  case (Some p)
  with y obtain v where v: "lookup (leaves h) p = Some v" and yv: "y = Some v"
    by (auto simp: pointee_Some)
  let ?a = "length (leaves h)"
  let ?h' = "h\<lparr>leaves := leaves h @ [v],
     selectors := (selectors h)[out := upd (\<lambda>_. Some ?a) t]\<rparr>"
  from i out v have
    "i < length (selectors h)" "selectors h ! i = s"
    "out < length (selectors h)" "selectors h ! out = t"
    "p < length (leaves h)" "leaves h ! p = v"
    by (simp_all add: lookup_Some_iff)
  with ne Some have "Selector_copy_leaf field upd zero i out h = Some ?h'"
    by (simp add: Selector_copy_leaf_def lookup_def nth_append Let_def)
  moreover have "pointee (lookup (leaves ?h')) (Some ?a) = Some y"
    by (simp add: pointee_Some lookup_def yv)
  ultimately show ?thesis by force
qed

lemma Selector_DeepCopyInto_step:
  assumes v: "value_Selector h i = Some v"
    and out: "lookup (selectors h) out = Some t0"
    and ne: "i \<noteq> out"
  shows "\<exists>h' t. Selector_DeepCopyInto i out h = Some h' \<and>
     h' = h\<lparr>leaves := leaves h', selectors := (selectors h)[out := t]\<rparr> \<and>
     take (length (leaves h)) (leaves h') = leaves h \<and>
     value_Selector h' out = Some v \<and>
     (\<forall>a. MatchLabels t = Some a \<longrightarrow> length (leaves h) \<le> a) \<and>
     (\<forall>a. MatchControllerRef t = Some a \<longrightarrow> length (leaves h) \<le> a)"
proof -
  from v obtain s l c where s: "lookup (selectors h) i = Some s"
    and l: "pointee (lookup (leaves h)) (MatchLabels s) = Some l"
    and c: "pointee (lookup (leaves h)) (MatchControllerRef s) = Some c"
    and vv: "v = Selector_value l c"
    by (auto simp: value_Selector_Some)
  from out have ol: "out < length (selectors h)" by (simp add: lookup_Some_iff)
  let ?h0 = "h\<lparr>selectors := (selectors h)[out := s]\<rparr>"
  from s out ne have i0: "lookup (selectors ?h0) i = Some s"
    and o0: "lookup (selectors ?h0) out = Some s"
    by (simp_all add: lookup_def split: if_splits)
  from l have l0: "pointee (lookup (leaves ?h0)) (MatchLabels s) = Some l" by simp
  from Selector_copy_leaf_step[where field = MatchLabels and upd = MatchLabels_update
      and zero = "Labels_leaf []", OF i0 o0 ne l0]
  obtain h1 x1 where
    s1: "Selector_copy_leaf MatchLabels MatchLabels_update (Labels_leaf []) i out ?h0 = Some h1"
    and h1: "h1 = ?h0\<lparr>leaves := leaves h1,
        selectors := (selectors ?h0)[out := MatchLabels_update (\<lambda>_. x1) s]\<rparr>"
    and p1: "take (length (leaves h)) (leaves h1) = leaves h"
    and y1: "pointee (lookup (leaves h1)) x1 = Some l"
    and f1: "\<forall>a. x1 = Some a \<longrightarrow> length (leaves h) \<le> a"
    by auto
  let ?t1 = "MatchLabels_update (\<lambda>_. x1) s"
  have sel1: "selectors h1 = (selectors h)[out := ?t1]"
    by (subst h1) simp
  from s ne ol have i1: "lookup (selectors h1) i = Some s"
    by (simp add: sel1 lookup_def split: if_splits)
  from ol have o1: "lookup (selectors h1) out = Some ?t1"
    by (simp add: sel1 lookup_def)
  from p1 have "\<And>a v. lookup (leaves h) a = Some v \<Longrightarrow> lookup (leaves h1) a = Some v"
    by (rule lookup_take)
  from this c have c1: "pointee (lookup (leaves h1)) (MatchControllerRef s) = Some c"
    by (rule pointee_mono)
  from Selector_copy_leaf_step[where field = MatchControllerRef
      and upd = MatchControllerRef_update and zero = "Bool_leaf False", OF i1 o1 ne c1]
  obtain h2 x2 where
    s2: "Selector_copy_leaf MatchControllerRef MatchControllerRef_update (Bool_leaf False)
          i out h1 = Some h2"
    and h2: "h2 = h1\<lparr>leaves := leaves h2,
        selectors := (selectors h1)[out := MatchControllerRef_update (\<lambda>_. x2) ?t1]\<rparr>"
    and p2: "take (length (leaves h1)) (leaves h2) = leaves h1"
    and y2: "pointee (lookup (leaves h2)) x2 = Some c"
    and f2: "\<forall>a. x2 = Some a \<longrightarrow> length (leaves h1) \<le> a"
    by auto
  let ?t2 = "MatchControllerRef_update (\<lambda>_. x2) ?t1"
  from s out s1 s2 have r: "Selector_DeepCopyInto i out h = Some h2"
    by (simp add: Selector_DeepCopyInto_def)
  have sel2: "selectors h2 = (selectors h)[out := ?t2]"
    by (subst h2, subst h1) simp
  have other2: "secretSelectors h2 = secretSelectors h" "tagArrays h2 = tagArrays h"
    "secretParameters h2 = secretParameters h"
    by (subst h2, subst h1, simp)+
  have eq: "h2 = h\<lparr>leaves := leaves h2, selectors := (selectors h)[out := ?t2]\<rparr>"
    using sel2 other2 by (cases h2, cases h) simp
  have p: "take (length (leaves h)) (leaves h2) = leaves h"
    using p1 p2 by (rule take_trans)
  from p2 have "\<And>a v. lookup (leaves h1) a = Some v \<Longrightarrow> lookup (leaves h2) a = Some v"
    by (rule lookup_take)
  from this y1 have y1': "pointee (lookup (leaves h2)) x1 = Some l"
    by (rule pointee_mono)
  from ol have "lookup (selectors h2) out = Some ?t2"
    by (simp add: sel2 lookup_def)
  with y1' y2 have val: "value_Selector h2 out = Some v"
    by (simp add: value_Selector_def vv)
  from p1 have "length (leaves h) \<le> length (leaves h1)" by (rule take_length_le)
  with f2 have f2': "\<forall>a. x2 = Some a \<longrightarrow> length (leaves h) \<le> a" by auto
  from r eq p val f1 f2' show ?thesis
    by (intro exI[of _ h2] exI[of _ ?t2]) simp
qed

lemma SecretSelector_DeepCopyInto_step:
  assumes v: "value_SecretSelector h i = Some v"
    and out: "lookup (secretSelectors h) out = Some t0"
    and ne: "i \<noteq> out"
  shows "\<exists>h' t. SecretSelector_DeepCopyInto i out h = Some h' \<and>
     h' = h\<lparr>leaves := leaves h', secretSelectors := (secretSelectors h)[out := t]\<rparr> \<and>
     take (length (leaves h)) (leaves h') = leaves h \<and>
     value_SecretSelector h' out = Some v \<and>
     (\<forall>a. SecretReference t = Some a \<longrightarrow> length (leaves h) \<le> a)"
proof -
  from v obtain s r where s: "lookup (secretSelectors h) i = Some s"
    and r: "pointee (lookup (leaves h)) (SecretReference s) = Some r"
    and vv: "v = SecretSelector_value r (Key s)"
    by (auto simp: value_SecretSelector_Some)
  from s out have b: "i < length (secretSelectors h)" "secretSelectors h ! i = s"
    "out < length (secretSelectors h)"
    by (simp_all add: lookup_Some_iff)
  show ?thesis
  proof (cases "SecretReference s")
    case None
    let ?h' = "h\<lparr>secretSelectors := (secretSelectors h)[out := s]\<rparr>"
    from b ne None have "SecretSelector_DeepCopyInto i out h = Some ?h'"
      by (simp add: SecretSelector_DeepCopyInto_def lookup_def)
    moreover from b r None have "value_SecretSelector ?h' out = Some v"
      by (simp add: value_SecretSelector_def lookup_def vv)
    moreover have "?h' = h\<lparr>leaves := leaves ?h',
        secretSelectors := (secretSelectors h)[out := s]\<rparr>"
      by simp
    ultimately show ?thesis using None
      by (intro exI[of _ ?h'] exI[of _ s]) simp
  next
    case (Some p)
    with r obtain w where w: "lookup (leaves h) p = Some w" and rw: "r = Some w"
      by (auto simp: pointee_Some)
    then have pb: "p < length (leaves h)" "leaves h ! p = w"
      by (simp_all add: lookup_Some_iff)
    let ?a = "length (leaves h)"
    let ?t = "s\<lparr>SecretReference := Some ?a\<rparr>"
    let ?h' = "h\<lparr>leaves := leaves h @ [w],
       secretSelectors := (secretSelectors h)[out := ?t]\<rparr>"
    from b ne Some pb have "SecretSelector_DeepCopyInto i out h = Some ?h'"
      by (simp add: SecretSelector_DeepCopyInto_def lookup_def nth_append Let_def)
    moreover from b have "value_SecretSelector ?h' out = Some v"
      by (simp add: value_SecretSelector_def lookup_def vv rw pointee_Some)
    ultimately show ?thesis
      by (intro exI[of _ ?h'] exI[of _ ?t]) simp
  qed
qed

lemma copy_KmsKeySelector_step:
  assumes i: "lookup (secretParameters h) i = Some s"
    and out: "lookup (secretParameters h) out = Some t"
    and ne: "i \<noteq> out"
    and y: "pointee (value_Selector h) (KmsKeySelector s) = Some y"
    and todo: "KmsKeySelector t = KmsKeySelector s"
  shows "\<exists>h' x. copy_KmsKeySelector i out h = Some h' \<and>
     grows h h' \<and>
     secretParameters h' = (secretParameters h)[out := t\<lparr>KmsKeySelector := x\<rparr>] \<and>
     pointee (value_Selector h') x = Some y \<and>
     (\<forall>l \<in> set (ptr_locs (storage_Selector h') x). \<not> allocated h l)"
proof (cases "KmsKeySelector s")
  case None
  with i have run: "copy_KmsKeySelector i out h = Some h"
    by (simp add: copy_KmsKeySelector_def)
  from out have "(secretParameters h)[out := t] = secretParameters h"
    by (auto simp: lookup_Some_iff)
  moreover have "t\<lparr>KmsKeySelector := KmsKeySelector t\<rparr> = t" by simp
  with None todo have "t\<lparr>KmsKeySelector := None\<rparr> = t" by simp
  ultimately
  have "secretParameters h = (secretParameters h)[out := t\<lparr>KmsKeySelector := None\<rparr>]"
    by simp
  moreover from None y have "pointee (value_Selector h) None = Some y" by simp
  moreover have "\<forall>l \<in> set (ptr_locs (storage_Selector h) None). \<not> allocated h l"
    by (simp add: ptr_locs_def)
  ultimately show ?thesis using run grows_refl by blast
next
  case (Some p)
  with y obtain v where v: "value_Selector h p = Some v" and yv: "y = Some v"
    by (auto simp: pointee_Some)
  from v have pl: "p < length (selectors h)"
    by (auto simp: value_Selector_Some lookup_Some_iff)
  from i out have b: "i < length (secretParameters h)" "secretParameters h ! i = s"
    "out < length (secretParameters h)" "secretParameters h ! out = t"
    by (simp_all add: lookup_Some_iff)
  let ?a = "length (selectors h)"
  let ?h2 = "h\<lparr>selectors := selectors h @ [Selector_zero],
     secretParameters := (secretParameters h)[out := t\<lparr>KmsKeySelector := Some ?a\<rparr>]\<rparr>"
  have g2: "grows h ?h2" by (simp add: grows_def)
  from g2 v have v2: "value_Selector ?h2 p = Some v" by (rule value_Selector_grows)
  have o2: "lookup (selectors ?h2) ?a = Some Selector_zero"
    by (simp add: lookup_def)
  from pl have pa: "p \<noteq> ?a" by simp
  from Selector_DeepCopyInto_step[OF v2 o2 pa] obtain h' t' where
    r: "Selector_DeepCopyInto p ?a ?h2 = Some h'"
    and h': "h' = ?h2\<lparr>leaves := leaves h', selectors := (selectors ?h2)[?a := t']\<rparr>"
    and p': "take (length (leaves ?h2)) (leaves h') = leaves ?h2"
    and val: "value_Selector h' ?a = Some v"
    and f1: "\<forall>a. MatchLabels t' = Some a \<longrightarrow> length (leaves ?h2) \<le> a"
    and f2: "\<forall>a. MatchControllerRef t' = Some a \<longrightarrow> length (leaves ?h2) \<le> a"
    by blast
  from b ne Some r have run: "copy_KmsKeySelector i out h = Some h'"
    by (simp add: copy_KmsKeySelector_def lookup_def Let_def)
  have sel: "selectors h' = selectors h @ [t']"
    by (subst h') simp
  have oth: "secretSelectors h' = secretSelectors h" "tagArrays h' = tagArrays h"
    "secretParameters h' = (secretParameters h)[out := t\<lparr>KmsKeySelector := Some ?a\<rparr>]"
    by (subst h', simp)+
  from p' have lv: "take (length (leaves h)) (leaves h') = leaves h" by simp
  have g: "grows h h'"
    by (simp add: grows_def lv sel oth)
  have "lookup (selectors h') ?a = Some t'"
    by (simp add: sel lookup_def)
  then have "storage_Selector h' ?a = Selector_loc ?a #
      ptr_locs leaf_locs (MatchLabels t') @ ptr_locs leaf_locs (MatchControllerRef t')"
    by (simp add: storage_Selector_def)
  with f1 f2 have fr: "\<forall>l \<in> set (ptr_locs (storage_Selector h') (Some ?a)). \<not> allocated h l"
    by (auto simp: ptr_locs_def leaf_locs_def split: option.splits)
  from val have "pointee (value_Selector h') (Some ?a) = Some y"
    by (simp add: pointee_Some yv)
  with run g oth(3) fr show ?thesis by blast
qed

lemma copy_SecretRef_step:
  assumes i: "lookup (secretParameters h) i = Some s"
    and out: "lookup (secretParameters h) out = Some t"
    and ne: "i \<noteq> out"
    and y: "pointee (value_SecretSelector h) (SecretRef s) = Some y"
    and todo: "SecretRef t = SecretRef s"
  shows "\<exists>h' x. copy_SecretRef i out h = Some h' \<and>
     grows h h' \<and>
     secretParameters h' = (secretParameters h)[out := t\<lparr>SecretRef := x\<rparr>] \<and>
     pointee (value_SecretSelector h') x = Some y \<and>
     (\<forall>l \<in> set (ptr_locs (storage_SecretSelector h') x). \<not> allocated h l)"
proof (cases "SecretRef s")
  case None
  with i have run: "copy_SecretRef i out h = Some h"
    by (simp add: copy_SecretRef_def)
  from out have "(secretParameters h)[out := t] = secretParameters h"
    by (auto simp: lookup_Some_iff)
  moreover have "t\<lparr>SecretRef := SecretRef t\<rparr> = t" by simp
  with None todo have "t\<lparr>SecretRef := None\<rparr> = t" by simp
  ultimately
  have "secretParameters h = (secretParameters h)[out := t\<lparr>SecretRef := None\<rparr>]"
    by simp
  moreover from None y have "pointee (value_SecretSelector h) None = Some y" by simp
  moreover have "\<forall>l \<in> set (ptr_locs (storage_SecretSelector h) None). \<not> allocated h l"
    by (simp add: ptr_locs_def)
  ultimately show ?thesis using run grows_refl by blast
next
  case (Some p)
  with y obtain v where v: "value_SecretSelector h p = Some v" and yv: "y = Some v"
    by (auto simp: pointee_Some)
  from v have pl: "p < length (secretSelectors h)"
    by (auto simp: value_SecretSelector_Some lookup_Some_iff)
  from i out have b: "i < length (secretParameters h)" "secretParameters h ! i = s"
    "out < length (secretParameters h)" "secretParameters h ! out = t"
    by (simp_all add: lookup_Some_iff)
  let ?a = "length (secretSelectors h)"
  let ?h2 = "h\<lparr>secretSelectors := secretSelectors h @ [SecretSelector_zero],
     secretParameters := (secretParameters h)[out := t\<lparr>SecretRef := Some ?a\<rparr>]\<rparr>"
  have g2: "grows h ?h2" by (simp add: grows_def)
  from g2 v have v2: "value_SecretSelector ?h2 p = Some v" by (rule value_SecretSelector_grows)
  have o2: "lookup (secretSelectors ?h2) ?a = Some SecretSelector_zero"
    by (simp add: lookup_def)
  from pl have pa: "p \<noteq> ?a" by simp
  from SecretSelector_DeepCopyInto_step[OF v2 o2 pa] obtain h' t' where
    r: "SecretSelector_DeepCopyInto p ?a ?h2 = Some h'"
    and h': "h' = ?h2\<lparr>leaves := leaves h',
        secretSelectors := (secretSelectors ?h2)[?a := t']\<rparr>"
    and p': "take (length (leaves ?h2)) (leaves h') = leaves ?h2"
    and val: "value_SecretSelector h' ?a = Some v"
    and f1: "\<forall>a. SecretReference t' = Some a \<longrightarrow> length (leaves ?h2) \<le> a"
    by blast
  from b ne Some r have run: "copy_SecretRef i out h = Some h'"
    by (simp add: copy_SecretRef_def lookup_def Let_def)
  have sel: "secretSelectors h' = secretSelectors h @ [t']"
    by (subst h') simp
  have oth: "selectors h' = selectors h" "tagArrays h' = tagArrays h"
    "secretParameters h' = (secretParameters h)[out := t\<lparr>SecretRef := Some ?a\<rparr>]"
    by (subst h', simp)+
  from p' have lv: "take (length (leaves h)) (leaves h') = leaves h" by simp
  have g: "grows h h'"
    by (simp add: grows_def lv sel oth)
  have "lookup (secretSelectors h') ?a = Some t'"
    by (simp add: sel lookup_def)
  then have "storage_SecretSelector h' ?a = SecretSelector_loc ?a #
      ptr_locs leaf_locs (SecretReference t')"
    by (simp add: storage_SecretSelector_def)
  with f1 have fr:
    "\<forall>l \<in> set (ptr_locs (storage_SecretSelector h') (Some ?a)). \<not> allocated h l"
    by (auto simp: ptr_locs_def leaf_locs_def split: option.splits)
  from val have "pointee (value_SecretSelector h') (Some ?a) = Some y"
    by (simp add: pointee_Some yv)
  with run g oth(3) fr show ?thesis by blast
qed

lemma copy_Tags_step:
  assumes i: "lookup (secretParameters h) i = Some s"
    and out: "lookup (secretParameters h) out = Some t"
    and ne: "i \<noteq> out"
    and y: "pointee (slice_value h) (Tags s) = Some y"
    and todo: "Tags t = Tags s"
  shows "\<exists>h' x. copy_Tags i out h = Some h' \<and>
     grows h h' \<and>
     secretParameters h' = (secretParameters h)[out := t\<lparr>Tags := x\<rparr>] \<and>
     pointee (slice_value h') x = Some y \<and>
     (\<forall>sl. x = Some sl \<longrightarrow> length (tagArrays h) \<le> arr sl)"
proof (cases "Tags s")
  case None
  with i have run: "copy_Tags i out h = Some h"
    by (simp add: copy_Tags_def)
  from out have "(secretParameters h)[out := t] = secretParameters h"
    by (auto simp: lookup_Some_iff)
  moreover have "t\<lparr>Tags := Tags t\<rparr> = t" by simp
  with None todo have "t\<lparr>Tags := None\<rparr> = t" by simp
  ultimately
  have "secretParameters h = (secretParameters h)[out := t\<lparr>Tags := None\<rparr>]"
    by simp
  moreover from None y have "pointee (slice_value h) None = Some y" by simp
  ultimately show ?thesis using run grows_refl by blast
next
  case (Some src)
  with y obtain ts where v: "slice_value h src = Some ts" and yv: "y = Some ts"
    by (auto simp: pointee_Some)
  then obtain xs where xs: "lookup (tagArrays h) (arr src) = Some xs"
    and bd: "off src + len src \<le> length xs" and ts: "ts = take (len src) (drop (off src) xs)"
    by (auto simp: slice_value_Some)
  from xs have xb: "arr src < length (tagArrays h)" "tagArrays h ! arr src = xs"
    by (simp_all add: lookup_Some_iff)
  from bd ts have lts: "length ts = len src" by simp
  from i out have b: "i < length (secretParameters h)" "secretParameters h ! i = s"
    "out < length (secretParameters h)" "secretParameters h ! out = t"
    by (simp_all add: lookup_Some_iff)
  let ?a = "length (tagArrays h)"
  let ?dst = "\<lparr>arr = ?a, off = 0, len = len src\<rparr>"
  let ?h' = "h\<lparr>tagArrays := tagArrays h @ [ts],
     secretParameters := (secretParameters h)[out := t\<lparr>Tags := Some ?dst\<rparr>]\<rparr>"
  let ?h2 = "h\<lparr>tagArrays := tagArrays h @ [replicate (len src) (Tag [] [])],
     secretParameters := (secretParameters h)[out := t\<lparr>Tags := Some ?dst\<rparr>]\<rparr>"
  from xb bd ts have sv2: "slice_value ?h2 src = Some ts"
    by (simp add: slice_value_def lookup_def nth_append)
  from lts have "copy_slice ?dst src ?h2 = Some ?h'"
    by (simp add: copy_slice_def sv2 lookup_def)
  with b ne Some have run: "copy_Tags i out h = Some ?h'"
    by (simp add: copy_Tags_def lookup_def Let_def)
  have g: "grows h ?h'" by (simp add: grows_def)
  from lts have "slice_value ?h' ?dst = Some ts"
    by (simp add: slice_value_def lookup_def)
  then have "pointee (slice_value ?h') (Some ?dst) = Some y"
    by (simp add: pointee_Some yv)
  moreover have "\<forall>sl. Some ?dst = Some sl \<longrightarrow> length (tagArrays h) \<le> arr sl"
    by auto
  moreover have "secretParameters ?h' = (secretParameters h)[out := t\<lparr>Tags := Some ?dst\<rparr>]"
    by simp
  ultimately show ?thesis using run g by blast
qed

subsection \<open>The whole copy\<close>

lemma value_SecretParameters_Some:
  "value_SecretParameters h a = Some v \<longleftrightarrow>
   (\<exists>s d k r sel sec f w ts.
      lookup (secretParameters h) a = Some s \<and>
      pointee (lookup (leaves h)) (Description s) = Some d \<and>
      pointee (lookup (leaves h)) (KmsKeyID s) = Some k \<and>
      pointee (lookup (leaves h)) (KmsKeyRef s) = Some r \<and>
      pointee (value_Selector h) (KmsKeySelector s) = Some sel \<and>
      pointee (value_SecretSelector h) (SecretRef s) = Some sec \<and>
      pointee (lookup (leaves h)) (ForceDeleteWithoutRecovery s) = Some f \<and>
      pointee (lookup (leaves h)) (RecoveryWindowInDays s) = Some w \<and>
      pointee (slice_value h) (Tags s) = Some ts \<and>
      v = SecretParameters_value (Region s) d k r sel sec f w ts)"
  by (auto simp: value_SecretParameters_def split: bind_splits)

lemma allocated_extends: "extends h g \<Longrightarrow> allocated h l \<Longrightarrow> allocated g l"
  by (cases l) (auto simp: extends_def grows_def dest: take_length_le)

lemma extends_appended:
  "grows h g \<Longrightarrow> secretParameters g = secretParameters h @ ts \<Longrightarrow> extends h g"
  by (simp add: extends_def)

lemma appended_lookups:
  assumes "lookup sp i = Some s"
  shows "lookup (sp @ [t]) i = Some s \<and> lookup (sp @ [t]) (length sp) = Some t \<and>
    i \<noteq> length sp \<and> (\<forall>t'. (sp @ [t])[length sp := t'] = sp @ [t'])"
  using assms by (auto simp: lookup_def nth_append split: if_splits)

lemma storage_Selector_grows:
  assumes g: "grows h g" and v: "pointee (value_Selector h) x = Some y"
  shows "ptr_locs (storage_Selector g) x = ptr_locs (storage_Selector h) x"
proof (cases x)
  case None
  then show ?thesis by (simp add: ptr_locs_def)
next
  case (Some a)
  with v obtain s where s: "lookup (selectors h) a = Some s"
    by (auto simp: pointee_Some value_Selector_Some)
  from g have "take (length (selectors h)) (selectors g) = selectors h"
    by (simp add: grows_def)
  from lookup_take[OF this s] s Some show ?thesis
    by (simp add: ptr_locs_def storage_Selector_def)
qed

lemma storage_SecretSelector_grows:
  assumes g: "grows h g" and v: "pointee (value_SecretSelector h) x = Some y"
  shows "ptr_locs (storage_SecretSelector g) x = ptr_locs (storage_SecretSelector h) x"
proof (cases x)
  case None
  then show ?thesis by (simp add: ptr_locs_def)
next
  case (Some a)
  with v obtain s where s: "lookup (secretSelectors h) a = Some s"
    by (auto simp: pointee_Some value_SecretSelector_Some)
  from g have "take (length (secretSelectors h)) (secretSelectors g) = secretSelectors h"
    by (simp add: grows_def)
  from lookup_take[OF this s] s Some show ?thesis
    by (simp add: ptr_locs_def storage_SecretSelector_def)
qed

lemma fresh_leaf:
  assumes "extends h g" and "\<forall>a. x = Some a \<longrightarrow> length (leaves g) \<le> a"
  shows "\<forall>l \<in> set (ptr_locs leaf_locs x). \<not> allocated h l"
proof -
  from assms(1) have "length (leaves h) \<le> length (leaves g)"
    by (auto simp: extends_def grows_def dest: take_length_le)
  with assms(2) show ?thesis
    by (cases x) (auto simp: ptr_locs_def leaf_locs_def)
qed

lemma fresh_extends:
  assumes "extends h g" and "\<forall>l \<in> set ls. \<not> allocated g l"
  shows "\<forall>l \<in> set ls. \<not> allocated h l"
  using assms allocated_extends by blast

lemma SecretParameters_DeepCopyInto_fresh:
  assumes v: "value_SecretParameters h i = Some v"
  shows "\<exists>h'. SecretParameters_DeepCopyInto i (length (secretParameters h))
        (h\<lparr>secretParameters := secretParameters h @ [SecretParameters_zero]\<rparr>) = Some h' \<and>
     extends h h' \<and>
     value_SecretParameters h' (length (secretParameters h)) = Some v \<and>
     (\<forall>l \<in> set (storage_SecretParameters h' (length (secretParameters h))).
        \<not> allocated h l)"
proof -
  let ?sp = "secretParameters h"
  let ?n = "length ?sp"
  from v obtain s d k r sel sec f w ts where
    s: "lookup ?sp i = Some s"
    and d: "pointee (lookup (leaves h)) (Description s) = Some d"
    and k: "pointee (lookup (leaves h)) (KmsKeyID s) = Some k"
    and r: "pointee (lookup (leaves h)) (KmsKeyRef s) = Some r"
    and sel: "pointee (value_Selector h) (KmsKeySelector s) = Some sel"
    and sec: "pointee (value_SecretSelector h) (SecretRef s) = Some sec"
    and f: "pointee (lookup (leaves h)) (ForceDeleteWithoutRecovery s) = Some f"
    and w: "pointee (lookup (leaves h)) (RecoveryWindowInDays s) = Some w"
    and ts: "pointee (slice_value h) (Tags s) = Some ts"
    and vv: "v = SecretParameters_value (Region s) d k r sel sec f w ts"
    unfolding value_SecretParameters_Some by blast
  note ap = appended_lookups[OF s, of s]
  let ?hz = "h\<lparr>secretParameters := ?sp @ [SecretParameters_zero]\<rparr>"
  let ?h0 = "h\<lparr>secretParameters := ?sp @ [s]\<rparr>"
  have g0: "grows h ?h0" by (simp add: grows_def)
  have sp0: "secretParameters ?h0 = ?sp @ [s]" by simp

  \<comment> \<open>Description\<close>
  from copy_leaf_field_step[where field = Description and upd = Description_update
      and zero = "String_leaf []" and h = ?h0 and i = i and out = ?n and s = s and t = s
      and y = d]
    ap d
  obtain h1 x1 where
    r1: "copy_leaf_field Description Description_update (String_leaf []) i ?n ?h0 = Some h1"
    and g1: "grows ?h0 h1"
    and sp1: "secretParameters h1 = ?sp @ [s\<lparr>Description := x1\<rparr>]"
    and y1: "pointee (lookup (leaves h1)) x1 = Some d"
    and f1: "\<forall>a. x1 = Some a \<longrightarrow> length (leaves ?h0) \<le> a"
    by auto
  let ?t1 = "s\<lparr>Description := x1\<rparr>"
  from g0 g1 have gh1: "grows h h1" by (rule grows_trans)

  \<comment> \<open>KmsKeyID\<close>
  from copy_leaf_field_step[where field = KmsKeyID and upd = KmsKeyID_update
      and zero = "String_leaf []" and h = h1 and i = i and out = ?n and s = s and t = ?t1
      and y = k]
    appended_lookups[OF s, of ?t1] leaf_grows[OF gh1 k] sp1
  obtain h2 x2 where
    r2: "copy_leaf_field KmsKeyID KmsKeyID_update (String_leaf []) i ?n h1 = Some h2"
    and g2: "grows h1 h2"
    and sp2: "secretParameters h2 = ?sp @ [?t1\<lparr>KmsKeyID := x2\<rparr>]"
    and y2: "pointee (lookup (leaves h2)) x2 = Some k"
    and f2: "\<forall>a. x2 = Some a \<longrightarrow> length (leaves h1) \<le> a"
    by auto
  let ?t2 = "?t1\<lparr>KmsKeyID := x2\<rparr>"
  from gh1 g2 have gh2: "grows h h2" by (rule grows_trans)

  \<comment> \<open>KmsKeyRef\<close>
  from copy_leaf_field_step[where field = KmsKeyRef and upd = KmsKeyRef_update
      and zero = "Reference_leaf (Reference [])" and h = h2 and i = i and out = ?n and s = s
      and t = ?t2 and y = r]
    appended_lookups[OF s, of ?t2] leaf_grows[OF gh2 r] sp2
  obtain h3 x3 where
    r3: "copy_leaf_field KmsKeyRef KmsKeyRef_update (Reference_leaf (Reference [])) i ?n h2
          = Some h3"
    and g3: "grows h2 h3"
    and sp3: "secretParameters h3 = ?sp @ [?t2\<lparr>KmsKeyRef := x3\<rparr>]"
    and y3: "pointee (lookup (leaves h3)) x3 = Some r"
    and f3: "\<forall>a. x3 = Some a \<longrightarrow> length (leaves h2) \<le> a"
    by auto
  let ?t3 = "?t2\<lparr>KmsKeyRef := x3\<rparr>"
  from gh2 g3 have gh3: "grows h h3" by (rule grows_trans)

  \<comment> \<open>KmsKeySelector\<close>
  from copy_KmsKeySelector_step[where h = h3 and i = i and out = ?n and s = s and t = ?t3
      and y = sel]
    appended_lookups[OF s, of ?t3] Selector_grows[OF gh3 sel] sp3
  obtain h4 x4 where
    r4: "copy_KmsKeySelector i ?n h3 = Some h4"
    and g4: "grows h3 h4"
    and sp4: "secretParameters h4 = ?sp @ [?t3\<lparr>KmsKeySelector := x4\<rparr>]"
    and y4: "pointee (value_Selector h4) x4 = Some sel"
    and f4: "\<forall>l \<in> set (ptr_locs (storage_Selector h4) x4). \<not> allocated h3 l"
    by auto
  let ?t4 = "?t3\<lparr>KmsKeySelector := x4\<rparr>"
  from gh3 g4 have gh4: "grows h h4" by (rule grows_trans)

  \<comment> \<open>SecretRef\<close>
  from copy_SecretRef_step[where h = h4 and i = i and out = ?n and s = s and t = ?t4
      and y = sec]
    appended_lookups[OF s, of ?t4] SecretSelector_grows[OF gh4 sec] sp4
  obtain h5 x5 where
    r5: "copy_SecretRef i ?n h4 = Some h5"
    and g5: "grows h4 h5"
    and sp5: "secretParameters h5 = ?sp @ [?t4\<lparr>SecretRef := x5\<rparr>]"
    and y5: "pointee (value_SecretSelector h5) x5 = Some sec"
    and f5: "\<forall>l \<in> set (ptr_locs (storage_SecretSelector h5) x5). \<not> allocated h4 l"
    by auto
  let ?t5 = "?t4\<lparr>SecretRef := x5\<rparr>"
  from gh4 g5 have gh5: "grows h h5" by (rule grows_trans)

  \<comment> \<open>ForceDeleteWithoutRecovery\<close>
  from copy_leaf_field_step[where field = ForceDeleteWithoutRecovery
      and upd = ForceDeleteWithoutRecovery_update
      and zero = "Bool_leaf False" and h = h5 and i = i and out = ?n and s = s and t = ?t5
      and y = f]
    appended_lookups[OF s, of ?t5] leaf_grows[OF gh5 f] sp5
  obtain h6 x6 where
    r6: "copy_leaf_field ForceDeleteWithoutRecovery ForceDeleteWithoutRecovery_update
          (Bool_leaf False) i ?n h5 = Some h6"
    and g6: "grows h5 h6"
    and sp6: "secretParameters h6 = ?sp @ [?t5\<lparr>ForceDeleteWithoutRecovery := x6\<rparr>]"
    and y6: "pointee (lookup (leaves h6)) x6 = Some f"
    and f6: "\<forall>a. x6 = Some a \<longrightarrow> length (leaves h5) \<le> a"
    by auto
  let ?t6 = "?t5\<lparr>ForceDeleteWithoutRecovery := x6\<rparr>"
  from gh5 g6 have gh6: "grows h h6" by (rule grows_trans)

  \<comment> \<open>RecoveryWindowInDays\<close>
  from copy_leaf_field_step[where field = RecoveryWindowInDays
      and upd = RecoveryWindowInDays_update
      and zero = "Int64_leaf 0" and h = h6 and i = i and out = ?n and s = s and t = ?t6
      and y = w]
    appended_lookups[OF s, of ?t6] leaf_grows[OF gh6 w] sp6
  obtain h7 x7 where
    r7: "copy_leaf_field RecoveryWindowInDays RecoveryWindowInDays_update
          (Int64_leaf 0) i ?n h6 = Some h7"
    and g7: "grows h6 h7"
    and sp7: "secretParameters h7 = ?sp @ [?t6\<lparr>RecoveryWindowInDays := x7\<rparr>]"
    and y7: "pointee (lookup (leaves h7)) x7 = Some w"
    and f7: "\<forall>a. x7 = Some a \<longrightarrow> length (leaves h6) \<le> a"
    by auto
  let ?t7 = "?t6\<lparr>RecoveryWindowInDays := x7\<rparr>"
  from gh6 g7 have gh7: "grows h h7" by (rule grows_trans)

  \<comment> \<open>Tags\<close>
  from copy_Tags_step[where h = h7 and i = i and out = ?n and s = s and t = ?t7 and y = ts]
    appended_lookups[OF s, of ?t7] slice_grows[OF gh7 ts] sp7
  obtain h8 x8 where
    r8: "copy_Tags i ?n h7 = Some h8"
    and g8: "grows h7 h8"
    and sp8: "secretParameters h8 = ?sp @ [?t7\<lparr>Tags := x8\<rparr>]"
    and y8: "pointee (slice_value h8) x8 = Some ts"
    and f8: "\<forall>sl. x8 = Some sl \<longrightarrow> length (tagArrays h7) \<le> arr sl"
    by auto
  let ?t8 = "?t7\<lparr>Tags := x8\<rparr>"
  from gh7 g8 have gh8: "grows h h8" by (rule grows_trans)

  \<comment> \<open>The run\<close>
  from appended_lookups[OF s, of SecretParameters_zero]
  have z: "lookup (?sp @ [SecretParameters_zero]) i = Some s"
    "lookup (?sp @ [SecretParameters_zero]) ?n = Some SecretParameters_zero"
    by simp_all
  have run: "SecretParameters_DeepCopyInto i ?n ?hz = Some h8"
    unfolding SecretParameters_DeepCopyInto_def
    by (simp add: z r1 r2 r3 r4 r5 r6 r7 r8 del: heap.simps)

  \<comment> \<open>What the later steps keep\<close>
  from g7 g8 have g68: "grows h6 h8" by (simp add: grows_trans)
  with g6 have g58: "grows h5 h8" by (simp add: grows_trans)
  with g5 have g48: "grows h4 h8" by (rule grows_trans)
  with g4 have g38: "grows h3 h8" by (rule grows_trans)
  with g3 have g28: "grows h2 h8" by (rule grows_trans)
  with g2 have g18: "grows h1 h8" by (rule grows_trans)
  note v1 = leaf_grows[OF g18 y1] and v2 = leaf_grows[OF g28 y2] and v3 = leaf_grows[OF g38 y3]
    and v4 = Selector_grows[OF g48 y4] and v5 = SecretSelector_grows[OF g58 y5]
    and v6 = leaf_grows[OF g68 y6] and v7 = leaf_grows[OF g8 y7]
  have lk: "lookup (secretParameters h8) ?n = Some ?t8"
    by (simp add: sp8 lookup_def)
  have val: "value_SecretParameters h8 ?n = Some v"
    unfolding value_SecretParameters_Some
    using lk v1 v2 v3 v4 v5 v6 v7 y8 vv by simp

  \<comment> \<open>Extension\<close>
  have e0: "extends h ?h0" using g0 sp0 by (rule extends_appended)
  have e1: "extends h h1" using gh1 sp1 by (rule extends_appended)
  have e2: "extends h h2" using gh2 sp2 by (rule extends_appended)
  have e3: "extends h h3" using gh3 sp3 by (rule extends_appended)
  have e4: "extends h h4" using gh4 sp4 by (rule extends_appended)
  have e5: "extends h h5" using gh5 sp5 by (rule extends_appended)
  have e6: "extends h h6" using gh6 sp6 by (rule extends_appended)
  have e7: "extends h h7" using gh7 sp7 by (rule extends_appended)
  have e8: "extends h h8" using gh8 sp8 by (rule extends_appended)

  \<comment> \<open>Fresh storage\<close>
  note n1 = fresh_leaf[OF e0 f1] and n2 = fresh_leaf[OF e1 f2] and n3 = fresh_leaf[OF e2 f3]
    and n6 = fresh_leaf[OF e5 f6] and n7 = fresh_leaf[OF e6 f7]
  from f4 have "\<forall>l \<in> set (ptr_locs (storage_Selector h8) x4). \<not> allocated h3 l"
    by (simp add: storage_Selector_grows[OF g48 y4])
  with e3 have n4: "\<forall>l \<in> set (ptr_locs (storage_Selector h8) x4). \<not> allocated h l"
    by (rule fresh_extends)
  from f5 have "\<forall>l \<in> set (ptr_locs (storage_SecretSelector h8) x5). \<not> allocated h4 l"
    by (simp add: storage_SecretSelector_grows[OF g58 y5])
  with e4 have n5: "\<forall>l \<in> set (ptr_locs (storage_SecretSelector h8) x5). \<not> allocated h l"
    by (rule fresh_extends)
  from e7 have "length (tagArrays h) \<le> length (tagArrays h7)"
    by (auto simp: extends_def grows_def dest: take_length_le)
  with f8 have n8: "\<forall>sl. x8 = Some sl \<longrightarrow> \<not> allocated h (TagArray_loc (arr sl))"
    by auto
  have fresh: "\<forall>l \<in> set (storage_SecretParameters h8 ?n). \<not> allocated h l"
    unfolding storage_SecretParameters_def
    using lk n1 n2 n3 n4 n5 n6 n7 n8 by (auto split: option.splits)
  from run e8 val fresh show ?thesis by blast
qed

subsection \<open>Sharing\<close>

lemma value_SecretParameters_extends:
  assumes e: "extends h g" and v: "value_SecretParameters h i = Some v"
  shows "value_SecretParameters g i = Some v"
proof -
  from e have g: "grows h g"
    and t: "take (length (secretParameters h)) (secretParameters g) = secretParameters h"
    by (simp_all add: extends_def)
  from v obtain s d k r sel sec f w ts where
    s: "lookup (secretParameters h) i = Some s"
    and d: "pointee (lookup (leaves h)) (Description s) = Some d"
    and k: "pointee (lookup (leaves h)) (KmsKeyID s) = Some k"
    and r: "pointee (lookup (leaves h)) (KmsKeyRef s) = Some r"
    and sel: "pointee (value_Selector h) (KmsKeySelector s) = Some sel"
    and sec: "pointee (value_SecretSelector h) (SecretRef s) = Some sec"
    and f: "pointee (lookup (leaves h)) (ForceDeleteWithoutRecovery s) = Some f"
    and w: "pointee (lookup (leaves h)) (RecoveryWindowInDays s) = Some w"
    and ts: "pointee (slice_value h) (Tags s) = Some ts"
    and vv: "v = SecretParameters_value (Region s) d k r sel sec f w ts"
    unfolding value_SecretParameters_Some by blast
  from lookup_take[OF t s] leaf_grows[OF g d] leaf_grows[OF g k] leaf_grows[OF g r]
    Selector_grows[OF g sel] SecretSelector_grows[OF g sec] leaf_grows[OF g f]
    leaf_grows[OF g w] slice_grows[OF g ts] vv
  show ?thesis unfolding value_SecretParameters_Some by simp
qed

lemma leaf_allocated:
  "pointee (lookup (leaves h)) p = Some y \<Longrightarrow> \<forall>l \<in> set (ptr_locs leaf_locs p). allocated h l"
  by (cases p) (auto simp: ptr_locs_def leaf_locs_def pointee_Some lookup_Some_iff)

lemma Selector_allocated:
  assumes "pointee (value_Selector h) p = Some y"
  shows "\<forall>l \<in> set (ptr_locs (storage_Selector h) p). allocated h l"
proof (cases p)
  case None
  then show ?thesis by (simp add: ptr_locs_def)
next
  case (Some a)
  with assms obtain s l c where s: "lookup (selectors h) a = Some s"
    and l: "pointee (lookup (leaves h)) (MatchLabels s) = Some l"
    and c: "pointee (lookup (leaves h)) (MatchControllerRef s) = Some c"
    by (auto simp: pointee_Some value_Selector_Some)
  from s have "allocated h (Selector_loc a)" by (simp add: lookup_Some_iff)
  with s Some leaf_allocated[OF l] leaf_allocated[OF c] show ?thesis
    by (auto simp: ptr_locs_def storage_Selector_def)
qed

lemma SecretSelector_allocated:
  assumes "pointee (value_SecretSelector h) p = Some y"
  shows "\<forall>l \<in> set (ptr_locs (storage_SecretSelector h) p). allocated h l"
proof (cases p)
  case None
  then show ?thesis by (simp add: ptr_locs_def)
next
  case (Some a)
  with assms obtain s r where s: "lookup (secretSelectors h) a = Some s"
    and r: "pointee (lookup (leaves h)) (SecretReference s) = Some r"
    by (auto simp: pointee_Some value_SecretSelector_Some)
  from s have "allocated h (SecretSelector_loc a)" by (simp add: lookup_Some_iff)
  with s Some leaf_allocated[OF r] show ?thesis
    by (auto simp: ptr_locs_def storage_SecretSelector_def)
qed

lemma slice_allocated:
  "pointee (slice_value h) p = Some y \<Longrightarrow>
   \<forall>sl. p = Some sl \<longrightarrow> allocated h (TagArray_loc (arr sl))"
  by (cases p) (auto simp: pointee_Some slice_value_Some lookup_Some_iff)

lemma storage_SecretParameters_allocated:
  assumes v: "value_SecretParameters h i = Some v"
  shows "\<forall>l \<in> set (storage_SecretParameters h i). allocated h l"
proof -
  from v obtain s d k r sel sec f w ts where
    s: "lookup (secretParameters h) i = Some s"
    and d: "pointee (lookup (leaves h)) (Description s) = Some d"
    and k: "pointee (lookup (leaves h)) (KmsKeyID s) = Some k"
    and r: "pointee (lookup (leaves h)) (KmsKeyRef s) = Some r"
    and sel: "pointee (value_Selector h) (KmsKeySelector s) = Some sel"
    and sec: "pointee (value_SecretSelector h) (SecretRef s) = Some sec"
    and f: "pointee (lookup (leaves h)) (ForceDeleteWithoutRecovery s) = Some f"
    and w: "pointee (lookup (leaves h)) (RecoveryWindowInDays s) = Some w"
    and ts: "pointee (slice_value h) (Tags s) = Some ts"
    unfolding value_SecretParameters_Some by blast
  from s have "allocated h (SecretParameters_loc i)" by (simp add: lookup_Some_iff)
  with s leaf_allocated[OF d] leaf_allocated[OF k] leaf_allocated[OF r]
    Selector_allocated[OF sel] SecretSelector_allocated[OF sec] leaf_allocated[OF f]
    leaf_allocated[OF w] slice_allocated[OF ts]
  show ?thesis
    unfolding storage_SecretParameters_def by (auto split: option.splits)
qed

lemma storage_SecretParameters_extends:
  assumes e: "extends h g" and v: "value_SecretParameters h i = Some v"
  shows "storage_SecretParameters g i = storage_SecretParameters h i"
proof -
  from e have g: "grows h g"
    and t: "take (length (secretParameters h)) (secretParameters g) = secretParameters h"
    by (simp_all add: extends_def)
  from v obtain s sel sec where
    s: "lookup (secretParameters h) i = Some s"
    and sel: "pointee (value_Selector h) (KmsKeySelector s) = Some sel"
    and sec: "pointee (value_SecretSelector h) (SecretRef s) = Some sec"
    unfolding value_SecretParameters_Some by blast
  from lookup_take[OF t s] s storage_Selector_grows[OF g sel]
    storage_SecretSelector_grows[OF g sec]
  show ?thesis by (simp add: storage_SecretParameters_def)
qed

lemma extends_apply_write:
  assumes "extends h g" and "\<not> allocated h (write_loc w)"
  shows "extends h (apply_write w g)"
  using assms by (cases w) (simp_all add: extends_def grows_def)

subsection \<open>The claim\<close>

text \<open>
  C10. \<^verbatim>\<open>DeepCopy\<close> of \<^verbatim>\<open>nil\<close> is \<^verbatim>\<open>nil\<close> and changes nothing. \<^verbatim>\<open>DeepCopy\<close> of a
  pointer to a well-formed struct returns a pointer whose value, every pointer followed,
  is that of the original; the original keeps its value; no cell of the copy's storage is
  a cell of the original's; and whatever is written into any one cell of the copy's
  storage, the original keeps its value.
\<close>

theorem SecretParameters_DeepCopy_deep:
  "SecretParameters_DeepCopy None h = Some (None, h) \<and>
   (\<forall>i v. value_SecretParameters h i = Some v \<longrightarrow>
      (\<exists>out h'. SecretParameters_DeepCopy (Some i) h = Some (Some out, h') \<and>
         value_SecretParameters h' out = Some v \<and>
         value_SecretParameters h' i = Some v \<and>
         (\<forall>l \<in> set (storage_SecretParameters h' out).
            l \<notin> set (storage_SecretParameters h' i)) \<and>
         (\<forall>w. write_loc w \<in> set (storage_SecretParameters h' out) \<longrightarrow>
            value_SecretParameters (apply_write w h') i = Some v)))"
proof (intro conjI allI impI)
  show "SecretParameters_DeepCopy None h = Some (None, h)"
    by (simp add: SecretParameters_DeepCopy_def)
next
  fix i v
  assume v: "value_SecretParameters h i = Some v"
  let ?out = "length (secretParameters h)"
  from SecretParameters_DeepCopyInto_fresh[OF v] obtain h' where
    run: "SecretParameters_DeepCopyInto i ?out
        (h\<lparr>secretParameters := secretParameters h @ [SecretParameters_zero]\<rparr>) = Some h'"
    and e: "extends h h'"
    and c: "value_SecretParameters h' ?out = Some v"
    and fresh: "\<forall>l \<in> set (storage_SecretParameters h' ?out). \<not> allocated h l"
    by blast
  from run have r: "SecretParameters_DeepCopy (Some i) h = Some (Some ?out, h')"
    by (simp add: SecretParameters_DeepCopy_def)
  from e v have o: "value_SecretParameters h' i = Some v"
    by (rule value_SecretParameters_extends)
  have st: "storage_SecretParameters h' i = storage_SecretParameters h i"
    using e v by (rule storage_SecretParameters_extends)
  from storage_SecretParameters_allocated[OF v] fresh st
  have d: "\<forall>l \<in> set (storage_SecretParameters h' ?out).
      l \<notin> set (storage_SecretParameters h' i)"
    by auto
  have m: "\<forall>w. write_loc w \<in> set (storage_SecretParameters h' ?out) \<longrightarrow>
      value_SecretParameters (apply_write w h') i = Some v"
  proof (intro allI impI)
    fix w
    assume "write_loc w \<in> set (storage_SecretParameters h' ?out)"
    with fresh have "\<not> allocated h (write_loc w)" by blast
    with e have "extends h (apply_write w h')" by (rule extends_apply_write)
    from this v show "value_SecretParameters (apply_write w h') i = Some v"
      by (rule value_SecretParameters_extends)
  qed
  from r c o d m
  show "\<exists>out h'. SecretParameters_DeepCopy (Some i) h = Some (Some out, h') \<and>
         value_SecretParameters h' out = Some v \<and>
         value_SecretParameters h' i = Some v \<and>
         (\<forall>l \<in> set (storage_SecretParameters h' out).
            l \<notin> set (storage_SecretParameters h' i)) \<and>
         (\<forall>w. write_loc w \<in> set (storage_SecretParameters h' out) \<longrightarrow>
            value_SecretParameters (apply_write w h') i = Some v)"
    by blast
qed

text \<open>The concrete heap is well formed, and C10 holds of it; the copy is computed.\<close>

lemma example_heap_value: "value_SecretParameters example_heap 0 = Some example_value"
  by (simp add: example_heap_def example_value_def value_SecretParameters_def
      value_Selector_def value_SecretSelector_def slice_value_def pointee_def lookup_def)

theorem SecretParameters_DeepCopy_deep_witness:
  "value_SecretParameters example_heap 0 = Some example_value \<and>
   (\<exists>out h'. SecretParameters_DeepCopy (Some 0) example_heap = Some (Some out, h') \<and>
      value_SecretParameters h' out = Some example_value \<and>
      value_SecretParameters h' 0 = Some example_value \<and>
      value_SecretParameters (apply_write (Write_leaf 4 (String_leaf ''changed'')) h') 0
        = Some example_value)"
proof -
  from SecretParameters_DeepCopy_deep[of example_heap] example_heap_value
  obtain out h' where
    r: "SecretParameters_DeepCopy (Some 0) example_heap = Some (Some out, h')"
    and c: "value_SecretParameters h' out = Some example_value"
    and o: "value_SecretParameters h' 0 = Some example_value"
    and m: "\<forall>w. write_loc w \<in> set (storage_SecretParameters h' out) \<longrightarrow>
            value_SecretParameters (apply_write w h') 0 = Some example_value"
    by blast
  have "SecretParameters_DeepCopy (Some 0) example_heap = Some (Some 1,
     \<lparr>leaves =
        [String_leaf ''a secret'', Labels_leaf [(''app'', ''db'')],
         SecretReference_leaf (SecretReference_of ''creds'' ''default''),
         Bool_leaf True, String_leaf ''a secret'',
         Labels_leaf [(''app'', ''db'')],
         SecretReference_leaf (SecretReference_of ''creds'' ''default''),
         Bool_leaf True],
      selectors =
        [\<lparr>MatchLabels = Some 1, MatchControllerRef = None\<rparr>,
         \<lparr>MatchLabels = Some 5, MatchControllerRef = None\<rparr>],
      secretSelectors =
        [\<lparr>SecretReference = Some 2, Key = ''password''\<rparr>,
         \<lparr>SecretReference = Some 6, Key = ''password''\<rparr>],
      tagArrays =
        [[Tag ''team'' ''core'', Tag ''env'' ''prod'', Tag ''x'' ''y''],
         [Tag ''env'' ''prod'', Tag ''x'' ''y'']],
      secretParameters =
        [\<lparr>Region = ''us-east-1'', Description = Some 0, KmsKeyID = None,
            KmsKeyRef = None, KmsKeySelector = Some 0, SecretRef = Some 0,
            ForceDeleteWithoutRecovery = Some 3,
            RecoveryWindowInDays = None,
            Tags = Some \<lparr>arr = 0, off = 1, len = 2\<rparr>\<rparr>,
         \<lparr>Region = ''us-east-1'', Description = Some 4, KmsKeyID = None,
            KmsKeyRef = None, KmsKeySelector = Some 1, SecretRef = Some 1,
            ForceDeleteWithoutRecovery = Some 7,
            RecoveryWindowInDays = None,
            Tags = Some \<lparr>arr = 1, off = 0, len = 2\<rparr>\<rparr>]\<rparr>)"
    by (simp add: example_heap_def SecretParameters_DeepCopy_def
        SecretParameters_DeepCopyInto_def copy_leaf_field_def copy_KmsKeySelector_def
        copy_SecretRef_def copy_Tags_def copy_slice_def slice_value_def
        Selector_DeepCopyInto_def Selector_copy_leaf_def SecretSelector_DeepCopyInto_def
        lookup_def Let_def SecretParameters_zero_def Selector_zero_def SecretSelector_zero_def)
  with r have "Leaf_loc 4 \<in> set (storage_SecretParameters h' out)"
    by (auto simp: storage_SecretParameters_def lookup_def ptr_locs_def leaf_locs_def)
  with m have "value_SecretParameters (apply_write (Write_leaf 4 (String_leaf ''changed'')) h') 0
      = Some example_value"
    by (metis write_loc.simps(1))
  with r c o example_heap_value show ?thesis by blast
qed

end
